theory Spec2Isabelle
  imports Complex_Main "HOL-Library.Sublist" "HOL-Library.Log_Nat"
begin

section \<open>Congestion-control session of the network simulator (class TCPTahoe)\<close>

text \<open>
  The development embeds the class \<^verbatim>\<open>TCPTahoe\<close> of \<^verbatim>\<open>tcp_tahoe.h\<close> /
  \<^verbatim>\<open>tcp_tahoe.cpp\<close>: one function per method, the object passed in and returned.

  \<^item> An \<^verbatim>\<open>int\<close> field is an \<open>int\<close> kept in the 32-bit range; every arithmetic result
    stored into one goes through \<open>int32\<close>, the two's-complement wrap-around (what the
    compiled code does on the usual targets; the C++ standard leaves signed overflow
    undefined).
  \<^item> A \<^verbatim>\<open>double\<close> is modelled by a real number. Where a decimal such as 0.7 or 0.82
    is given for one, the \<^verbatim>\<open>double\<close> is the binary64 number nearest to the decimal
    (\<open>binary64\<close>), as for a literal of the source. The rounding of the arithmetic is
    written out (\<open>double_add\<close>, \<open>double_mult\<close>, which read their operands as
    \<^verbatim>\<open>double\<close>s and round the result) where the last bit of a result decides the
    integer that is stored: in the CUBIC reductions \<^verbatim>\<open>cwnd * cubic_beta\<close> and in the
    inflation \<^verbatim>\<open>rtt * (1.0 + network_utilization)\<close> of the round-trip time. The other
    \<^verbatim>\<open>double\<close> expressions are written with exact arithmetic, and comparisons with a
    literal are comparisons of the decimals; the statements about them are about
    integers and comparisons that hold with a margin, or about the expression a value
    is computed by.
  \<^item> The two readings of the environment are arguments: \<open>now\<close> is the value of
    \<^verbatim>\<open>steady_clock::now()\<close> in milliseconds (a \<^verbatim>\<open>long long\<close>) wherever a method
    reads the clock, and \<open>u\<close> is the number that \<^verbatim>\<open>dis(gen)\<close> returns in
    \<^verbatim>\<open>simulate_network_congestion\<close>.
\<close>

subsection \<open>Machine arithmetic\<close>

definition INT_MIN :: int where
  "INT_MIN = - (2 ^ 31)"

definition INT_MAX :: int where
  "INT_MAX = 2 ^ 31 - 1"

definition int32 :: "int \<Rightarrow> int" where
  \<comment> \<open>the value a 32-bit \<^verbatim>\<open>int\<close> holds after an operation whose exact result is \<open>k\<close>\<close>
  "int32 k = (k + 2 ^ 31) mod 2 ^ 32 - 2 ^ 31"

definition uint64 :: "int \<Rightarrow> int" where
  \<comment> \<open>conversion to \<^verbatim>\<open>uint64_t\<close>\<close>
  "uint64 k = k mod 2 ^ 64"

definition c_div :: "int \<Rightarrow> int \<Rightarrow> int" where
  \<comment> \<open>C++ integer division rounds towards zero\<close>
  "c_div a b = sgn a * sgn b * (\<bar>a\<bar> div \<bar>b\<bar>)"

definition trunc :: "real \<Rightarrow> int" where
  "trunc x = (if 0 \<le> x then \<lfloor>x\<rfloor> else \<lceil>x\<rceil>)"

definition int_of_double :: "real \<Rightarrow> int" where
  \<comment> \<open>conversion of a \<^verbatim>\<open>double\<close> to \<^verbatim>\<open>int\<close>: the fraction is dropped; a value outside
      the range of \<^verbatim>\<open>int\<close> (undefined in C++) gives \<^verbatim>\<open>INT_MIN\<close>, as the conversion
      instruction of x86-64 does\<close>
  "int_of_double x =
     (let t = trunc x in if INT_MIN \<le> t \<and> t \<le> INT_MAX then t else INT_MIN)"

definition round_half_even :: "real \<Rightarrow> int" where
  \<comment> \<open>the nearest integer, the even one of two that are equally near\<close>
  "round_half_even y =
     (let f = \<lfloor>y\<rfloor>; r = y - of_int f
      in if r < 1 / 2 then f else if 1 / 2 < r then f + 1 else if even f then f else f + 1)"

definition binary_exponent :: "real \<Rightarrow> int" where
  \<comment> \<open>the \<open>e\<close> with \<open>2 ^ e \<le> \<bar>x\<bar> < 2 ^ (e + 1)\<close>, for \<open>x\<close> other than 0\<close>
  "binary_exponent x =
     (if 1 \<le> \<bar>x\<bar> then bitlen \<lfloor>\<bar>x\<bar>\<rfloor> - 1 else - bitlen (\<lceil>1 / \<bar>x\<bar>\<rceil> - 1))"

definition binary64 :: "real \<Rightarrow> real" where
  \<comment> \<open>rounding to the nearest \<^verbatim>\<open>double\<close>: a significand of 53 bits, ties to even (the
      default rounding of IEEE 754; the limits of the exponent are not modelled)\<close>
  "binary64 x =
     (if x = 0 then 0
      else let e = binary_exponent x - 52
           in of_int (round_half_even (x / 2 powi e)) * 2 powi e)"

definition double_add :: "real \<Rightarrow> real \<Rightarrow> real" where
  \<comment> \<open>\<^verbatim>\<open>x + y\<close> on two \<^verbatim>\<open>double\<close>s\<close>
  "double_add x y = binary64 (binary64 x + binary64 y)"

definition double_mult :: "real \<Rightarrow> real \<Rightarrow> real" where
  \<comment> \<open>\<^verbatim>\<open>x * y\<close> on two \<^verbatim>\<open>double\<close>s\<close>
  "double_mult x y = binary64 (binary64 x * binary64 y)"

definition add_reciprocal :: "int \<Rightarrow> int" where
  \<comment> \<open>\<^verbatim>\<open>cwnd += 1.0 / cwnd\<close> on an \<^verbatim>\<open>int\<close>: the sum is a \<^verbatim>\<open>double\<close>, converted back on
      assignment; \<^verbatim>\<open>1.0 / 0\<close> is infinite and converts like any out-of-range value\<close>
  "add_reciprocal c =
     (if c = 0 then INT_MIN else int_of_double (of_int c + 1 / of_int c))"

subsection \<open>The session\<close>

datatype CongestionAlgorithm = TAHOE | RENO | CUBIC | BBR

datatype TCPState = SLOW_START | CONGESTION_AVOIDANCE | FAST_RECOVERY | TIMEOUT

record tcp_tahoe =
  cwnd :: int
  ssthresh :: int
  rtt :: int
  timeout :: int
  duplicate_ack_count :: int
  in_slow_start :: bool
  algorithm :: CongestionAlgorithm
  current_state :: TCPState
  cwnd_history :: "int list"
  ssthresh_history :: "int list"
  state_history :: "string list"
  throughput_history :: "real list"
  rtt_history :: "int list"
  cubic_beta :: real
  cubic_c :: real
  last_cwnd_reduction_time :: int
  bbr_min_rtt :: real
  bbr_max_bandwidth :: real
  packet_loss_rate :: real
  network_utilization :: real
  queue_delay :: int

definition TCPTahoe :: "CongestionAlgorithm \<Rightarrow> tcp_tahoe" where
  "TCPTahoe algo =
     \<lparr> cwnd = 1, ssthresh = 65535, rtt = 100, timeout = 200, duplicate_ack_count = 0,
       in_slow_start = True, algorithm = algo, current_state = SLOW_START,
       cwnd_history = [], ssthresh_history = [], state_history = [],
       throughput_history = [], rtt_history = [],
       cubic_beta = 7 / 10, cubic_c = 4 / 10, last_cwnd_reduction_time = 0,
       bbr_min_rtt = 100, bbr_max_bandwidth = 10,
       packet_loss_rate = 0, network_utilization = 0, queue_delay = 0 \<rparr>"

subsection \<open>Throughput and adaptive tuning\<close>

definition calculate_throughput :: "tcp_tahoe \<Rightarrow> real" where
  "calculate_throughput s =
     (if rtt s = 0 then 0
      else (of_int (cwnd s) * 1500 * 8) / (of_int (rtt s) * 1000))"

definition get_current_throughput :: "tcp_tahoe \<Rightarrow> real" where
  "get_current_throughput s = calculate_throughput s"

definition adaptive_congestion_response :: "tcp_tahoe \<Rightarrow> tcp_tahoe" where
  "adaptive_congestion_response s =
     (let s1 = (if packet_loss_rate s > 5 / 100
                then (if algorithm s = CUBIC then s\<lparr>cubic_beta := 8 / 10\<rparr> else s)
                else if packet_loss_rate s < 1 / 100
                then (if algorithm s = CUBIC then s\<lparr>cubic_beta := 7 / 10\<rparr> else s)
                else s)
      in s1\<lparr>timeout := int32 (rtt s1 * 2)\<rparr>)"

subsection \<open>Growth on send, one function per algorithm\<close>

definition tahoe_congestion_control :: "tcp_tahoe \<Rightarrow> tcp_tahoe" where
  "tahoe_congestion_control s =
     (if current_state s = SLOW_START then
        (let s1 = s\<lparr>state_history := state_history s @ [''Slow Start''],
                    cwnd := int32 (cwnd s * 2)\<rparr>
         in if cwnd s1 \<ge> ssthresh s1
            then s1\<lparr>current_state := CONGESTION_AVOIDANCE, in_slow_start := False\<rparr>
            else s1)
      else s\<lparr>state_history := state_history s @ [''Congestion Avoidance''],
             cwnd := int32 (cwnd s + 1)\<rparr>)"

definition reno_congestion_control :: "tcp_tahoe \<Rightarrow> tcp_tahoe" where
  "reno_congestion_control s =
     (if current_state s = SLOW_START then
        (let s1 = s\<lparr>state_history := state_history s @ [''Slow Start''],
                    cwnd := int32 (cwnd s * 2)\<rparr>
         in if cwnd s1 \<ge> ssthresh s1
            then s1\<lparr>current_state := CONGESTION_AVOIDANCE, in_slow_start := False\<rparr>
            else s1)
      else if current_state s = CONGESTION_AVOIDANCE then
        s\<lparr>state_history := state_history s @ [''Congestion Avoidance''],
          cwnd := add_reciprocal (cwnd s)\<rparr>
      else if current_state s = FAST_RECOVERY then
        s\<lparr>state_history := state_history s @ [''Fast Recovery''],
          cwnd := int32 (cwnd s + 1)\<rparr>
      else s)"

definition time_since_reduction :: "int \<Rightarrow> tcp_tahoe \<Rightarrow> real" where
  \<comment> \<open>the difference of a \<^verbatim>\<open>long long\<close> and a \<^verbatim>\<open>uint64_t\<close> is computed in \<^verbatim>\<open>uint64_t\<close>\<close>
  "time_since_reduction now s = of_int (uint64 (now - last_cwnd_reduction_time s)) / 1000"

definition cubic_wmax :: "tcp_tahoe \<Rightarrow> real" where
  "cubic_wmax s = of_int (cwnd s) / cubic_beta s"

definition cubic_target_cwnd :: "int \<Rightarrow> tcp_tahoe \<Rightarrow> real" where
  "cubic_target_cwnd now s = cubic_c s * time_since_reduction now s ^ 3 + cubic_wmax s"

definition cubic_congestion_control :: "int \<Rightarrow> tcp_tahoe \<Rightarrow> tcp_tahoe" where
  "cubic_congestion_control now s =
     (if current_state s = SLOW_START then
        (let s1 = s\<lparr>state_history := state_history s @ [''CUBIC Slow Start''],
                    cwnd := int32 (cwnd s * 2)\<rparr>
         in if cwnd s1 \<ge> ssthresh s1
            then s1\<lparr>current_state := CONGESTION_AVOIDANCE, in_slow_start := False\<rparr>
            else s1)
      else
        (let s1 = s\<lparr>state_history := state_history s @ [''CUBIC Congestion Avoidance'']\<rparr>;
             target_cwnd = cubic_target_cwnd now s1
         in if target_cwnd > of_int (cwnd s1)
            then s1\<lparr>cwnd := int_of_double (min target_cwnd (of_int (cwnd s1) + 1))\<rparr>
            else s1\<lparr>cwnd := add_reciprocal (cwnd s1)\<rparr>))"

definition bbr_congestion_control :: "tcp_tahoe \<Rightarrow> tcp_tahoe" where
  "bbr_congestion_control s =
     (let s1 = s\<lparr>state_history := state_history s @ [''BBR'']\<rparr>;
          bdp = bbr_max_bandwidth s1 * bbr_min_rtt s1 / 8;
          target_cwnd = bdp * 2;
          s2 = (if of_int (cwnd s1) < target_cwnd
                then s1\<lparr>cwnd := int_of_double (min target_cwnd (of_int (cwnd s1) * (125 / 100)))\<rparr>
                else if of_int (cwnd s1) > target_cwnd * (125 / 100)
                then s1\<lparr>cwnd := int_of_double (max target_cwnd (of_int (cwnd s1) * (9 / 10)))\<rparr>
                else s1)
      in s2\<lparr>current_state := CONGESTION_AVOIDANCE\<rparr>)"

subsection \<open>The public operations\<close>

definition send_packet :: "int \<Rightarrow> tcp_tahoe \<Rightarrow> tcp_tahoe" where
  "send_packet now s =
     (let s1 = s\<lparr>cwnd_history := cwnd_history s @ [cwnd s],
                 ssthresh_history := ssthresh_history s @ [ssthresh s]\<rparr>;
          current_throughput = calculate_throughput s1;
          s2 = s1\<lparr>throughput_history := throughput_history s1 @ [current_throughput],
                  rtt_history := rtt_history s1 @ [rtt s1]\<rparr>;
          s3 = (case algorithm s2 of
                  TAHOE \<Rightarrow> tahoe_congestion_control s2
                | RENO \<Rightarrow> reno_congestion_control s2
                | CUBIC \<Rightarrow> cubic_congestion_control now s2
                | BBR \<Rightarrow> bbr_congestion_control s2)
      in adaptive_congestion_response s3)"

definition timeout_event :: "int \<Rightarrow> tcp_tahoe \<Rightarrow> tcp_tahoe" where
  "timeout_event now s =
     (let s1 = s\<lparr>cwnd_history := cwnd_history s @ [cwnd s],
                 ssthresh_history := ssthresh_history s @ [ssthresh s],
                 last_cwnd_reduction_time := uint64 now\<rparr>;
          s2 = (case algorithm s1 of
                  TAHOE \<Rightarrow>
                    s1\<lparr>state_history := state_history s1 @ [''Timeout''],
                       ssthresh := max (c_div (cwnd s1) 2) 1, cwnd := 1,
                       current_state := SLOW_START, in_slow_start := True\<rparr>
                | RENO \<Rightarrow>
                    s1\<lparr>state_history := state_history s1 @ [''Timeout''],
                       ssthresh := max (c_div (cwnd s1) 2) 1, cwnd := 1,
                       current_state := SLOW_START, in_slow_start := True\<rparr>
                | CUBIC \<Rightarrow>
                    s1\<lparr>state_history := state_history s1 @ [''CUBIC Timeout''],
                       ssthresh :=
                         max (int_of_double (double_mult (of_int (cwnd s1)) (cubic_beta s1))) 1,
                       cwnd := 1,
                       current_state := SLOW_START, in_slow_start := True\<rparr>
                | BBR \<Rightarrow>
                    s1\<lparr>state_history := state_history s1 @ [''BBR Timeout''],
                       cwnd := int_of_double (max (of_int (cwnd s1) * (8 / 10)) 1)\<rparr>)
      in s2\<lparr>duplicate_ack_count := 0\<rparr>)"

definition duplicate_ack :: "int \<Rightarrow> tcp_tahoe \<Rightarrow> tcp_tahoe" where
  "duplicate_ack now s =
     (let s0 = s\<lparr>duplicate_ack_count := int32 (duplicate_ack_count s + 1)\<rparr>
      in if duplicate_ack_count s0 \<ge> 3 then
           (let s1 = s0\<lparr>cwnd_history := cwnd_history s0 @ [cwnd s0],
                        ssthresh_history := ssthresh_history s0 @ [ssthresh s0],
                        last_cwnd_reduction_time := uint64 now\<rparr>;
                s2 = (case algorithm s1 of
                        TAHOE \<Rightarrow>
                          s1\<lparr>state_history := state_history s1 @ [''Fast Retransmit''],
                             ssthresh := max (c_div (cwnd s1) 2) 1, cwnd := 1,
                             current_state := SLOW_START, in_slow_start := True\<rparr>
                      | RENO \<Rightarrow>
                          s1\<lparr>state_history := state_history s1 @ [''Fast Retransmit''],
                             ssthresh := max (c_div (cwnd s1) 2) 1,
                             cwnd := int32 (max (c_div (cwnd s1) 2) 1 + 3),
                             current_state := FAST_RECOVERY, in_slow_start := False\<rparr>
                      | CUBIC \<Rightarrow>
                          s1\<lparr>state_history := state_history s1 @ [''CUBIC Fast Retransmit''],
                             ssthresh :=
                         max (int_of_double (double_mult (of_int (cwnd s1)) (cubic_beta s1))) 1,
                             cwnd :=
                         max (int_of_double (double_mult (of_int (cwnd s1)) (cubic_beta s1))) 1,
                             current_state := CONGESTION_AVOIDANCE, in_slow_start := False\<rparr>
                      | BBR \<Rightarrow>
                          s1\<lparr>state_history := state_history s1 @ [''BBR Fast Retransmit'']\<rparr>)
            in s2\<lparr>duplicate_ack_count := 0\<rparr>)
         else s0)"

definition receive_ack :: "int \<Rightarrow> tcp_tahoe \<Rightarrow> tcp_tahoe" where
  "receive_ack ack_num s =
     (let s1 = (if current_state s = FAST_RECOVERY \<and> algorithm s = RENO
                then s\<lparr>current_state := CONGESTION_AVOIDANCE, cwnd := ssthresh s\<rparr>
                else s)
      in s1\<lparr>duplicate_ack_count := 0\<rparr>)"

definition set_network_conditions :: "real \<Rightarrow> real \<Rightarrow> int \<Rightarrow> tcp_tahoe \<Rightarrow> tcp_tahoe" where
  "set_network_conditions loss_rate utilization delay s =
     s\<lparr>packet_loss_rate := loss_rate, network_utilization := utilization,
       queue_delay := delay\<rparr>"

definition simulate_network_congestion :: "real \<Rightarrow> int \<Rightarrow> tcp_tahoe \<Rightarrow> tcp_tahoe" where
  \<comment> \<open>\<open>u\<close> is the number drawn from a generator that the method creates and seeds from
      \<^verbatim>\<open>std::random_device\<close> on every call\<close>
  "simulate_network_congestion u now s =
     (let s1 = (if u < packet_loss_rate s then timeout_event now s else s)
      in if network_utilization s1 > 7 / 10
         then s1\<lparr>rtt := int_of_double
                       (double_mult (of_int (rtt s1)) (double_add 1 (network_utilization s1)))\<rparr>
         else s1)"

definition reset :: "tcp_tahoe \<Rightarrow> tcp_tahoe" where
  "reset s =
     s\<lparr>cwnd := 1, ssthresh := 65535, duplicate_ack_count := 0, in_slow_start := True,
       current_state := SLOW_START, cwnd_history := [], ssthresh_history := [],
       state_history := [], throughput_history := [], rtt_history := []\<rparr>"

definition set_algorithm :: "CongestionAlgorithm \<Rightarrow> tcp_tahoe \<Rightarrow> tcp_tahoe" where
  "set_algorithm algo s = reset (s\<lparr>algorithm := algo\<rparr>)"

subsection \<open>Sequences of operations\<close>

text \<open>
  The calls a driver can make on a session: the methods that change it and that the
  Python binding exports, which are the seven public operations of the specification
  and the two methods of its condition adapter. Each comes with the readings of the
  environment that the method takes: the clock where it reads the clock, the drawn
  number where it draws one.
\<close>

datatype operation =
    SendPacket int
  | TimeoutEvent int
  | DuplicateAck int
  | ReceiveAck int
  | SetNetworkConditions real real int
  | SetAlgorithm CongestionAlgorithm
  | Reset
  | SimulateNetworkCongestion real int
  | AdaptiveCongestionResponse

fun apply_operation :: "operation \<Rightarrow> tcp_tahoe \<Rightarrow> tcp_tahoe" where
  "apply_operation (SendPacket now) s = send_packet now s"
| "apply_operation (TimeoutEvent now) s = timeout_event now s"
| "apply_operation (DuplicateAck now) s = duplicate_ack now s"
| "apply_operation (ReceiveAck ack_num) s = receive_ack ack_num s"
| "apply_operation (SetNetworkConditions l u d) s = set_network_conditions l u d s"
| "apply_operation (SetAlgorithm algo) s = set_algorithm algo s"
| "apply_operation Reset s = reset s"
| "apply_operation (SimulateNetworkCongestion u now) s = simulate_network_congestion u now s"
| "apply_operation AdaptiveCongestionResponse s = adaptive_congestion_response s"

fun run :: "operation list \<Rightarrow> tcp_tahoe \<Rightarrow> tcp_tahoe" where
  "run [] s = s"
| "run (x # xs) s = run xs (apply_operation x s)"

subsection \<open>The parameter fields\<close>

text \<open>
  The fields \<^verbatim>\<open>cubic_c\<close>, \<^verbatim>\<open>bbr_min_rtt\<close> and \<^verbatim>\<open>bbr_max_bandwidth\<close> are written by the
  constructor only, and \<^verbatim>\<open>cubic_beta\<close> by the constructor and by adaptive tuning;
  \<open>tuned\<close> holds of a record whose parameter fields have one of the values written there.
\<close>

definition tuned :: "tcp_tahoe \<Rightarrow> bool" where
  "tuned s \<longleftrightarrow>
     (cubic_beta s = 7 / 10 \<or> cubic_beta s = 8 / 10) \<and> cubic_c s = 4 / 10
     \<and> bbr_min_rtt s = 100 \<and> bbr_max_bandwidth s = 10"

subsection \<open>What the histories of a session look like\<close>

text \<open>
  \<open>recorded\<close> collects what holds of the bookkeeping fields between two calls: the
  window, threshold and label histories have one length, the throughput and round-trip
  histories have one length, the phase is never the enumerator \<^verbatim>\<open>TIMEOUT\<close> (no method
  assigns it), and the duplicate-ack counter is 0, 1 or 2.
\<close>

definition recorded :: "tcp_tahoe \<Rightarrow> bool" where
  "recorded s \<longleftrightarrow>
     length (cwnd_history s) = length (ssthresh_history s)
     \<and> length (ssthresh_history s) = length (state_history s)
     \<and> length (throughput_history s) = length (rtt_history s)
     \<and> current_state s \<noteq> TIMEOUT
     \<and> 0 \<le> duplicate_ack_count s \<and> duplicate_ack_count s \<le> 2"

section \<open>Basic facts about the machine arithmetic\<close>

lemma int32_small: "- (2 ^ 31) \<le> k \<Longrightarrow> k < 2 ^ 31 \<Longrightarrow> int32 k = k"
  by (simp add: int32_def)

lemma round_half_even_of_int [simp]: "round_half_even (of_int m) = m"
  by (simp add: round_half_even_def)

text \<open>An integer of fewer than 54 bits is a \<^verbatim>\<open>double\<close>: every \<^verbatim>\<open>int\<close> is one.\<close>

lemma binary64_of_int:
  assumes "\<bar>k\<bar> < 2 ^ 53"
  shows "binary64 (of_int k) = of_int k"
proof (cases "k = 0")
  case True
  then show ?thesis by (simp add: binary64_def)
next
  case False
  define b where "b = bitlen \<bar>k\<bar>"
  define n where "n = nat (53 - b)"
  from False have pos: "0 < \<bar>k\<bar>" by simp
  have "b \<le> 53"
    using assms by (simp add: b_def bitlen_le_iff_power)
  then have e: "b - 1 - 52 = - int n"
    by (simp add: n_def)
  have one: "1 \<le> \<bar>real_of_int k\<bar>"
    using pos by (metis of_int_abs int_one_le_iff_zero_less of_int_1_le_iff)
  have fl: "\<lfloor>\<bar>real_of_int k\<bar>\<rfloor> = \<bar>k\<bar>"
    by (metis floor_of_int of_int_abs)
  have ex: "binary_exponent (of_int k) - 52 = - int n"
    using one by (simp add: binary_exponent_def fl e flip: b_def)
  have p: "(2::real) powi (- int n) = 1 / 2 ^ n"
    by (simp add: power_int_minus_divide)
  have "real_of_int k / (2 powi (- int n)) = real_of_int (k * 2 ^ n)"
    by (simp add: p)
  then have "round_half_even (real_of_int k / (2 powi (- int n))) = k * 2 ^ n"
    by (simp only: round_half_even_of_int)
  with False show ?thesis
    by (simp add: binary64_def ex Let_def p)
qed

lemma binary64_numeral [simp]: "binary64 1 = 1" "binary64 2 = 2"
  using binary64_of_int [of 1] binary64_of_int [of 2] by simp_all

text \<open>
  The literals \<^verbatim>\<open>0.7\<close> and \<^verbatim>\<open>0.8\<close> as \<^verbatim>\<open>double\<close>s, and two products with them: the
  first is cut to 62, where the exact product is 63.
\<close>

lemma binary64_cubic_beta:
  "binary64 (7 / 10) = 3152519739159347 / 4503599627370496"
  "binary64 (8 / 10) = 3602879701896397 / 4503599627370496"
  by code_simp+

lemma double_mult_cubic_beta:
  "int_of_double (double_mult 90 (7 / 10)) = 62"
  "int_of_double (double_mult 10 (7 / 10)) = 7"
  "int_of_double (double_mult 1 (7 / 10)) = 0"
  by code_simp+

lemma trunc_of_int [simp]: "trunc (of_int k) = k"
  by (simp add: trunc_def)

lemma trunc_nonneg: "0 \<le> x \<Longrightarrow> trunc x = \<lfloor>x\<rfloor>"
  by (simp add: trunc_def)

lemma add_reciprocal_one: "add_reciprocal 1 = 2"
  by (simp add: add_reciprocal_def int_of_double_def INT_MIN_def INT_MAX_def trunc_def)

lemma add_reciprocal_idle:
  assumes "2 \<le> c" and "c \<le> INT_MAX"
  shows "add_reciprocal c = c"
proof -
  have pos: "0 < real_of_int c" using assms by simp
  have "1 / real_of_int c < 1" using assms by simp
  moreover have "0 \<le> 1 / real_of_int c" using pos by simp
  ultimately have "\<lfloor>real_of_int c + 1 / real_of_int c\<rfloor> = c"
    by (intro floor_unique) simp_all
  moreover have "0 \<le> real_of_int c + 1 / real_of_int c" using pos by simp
  ultimately have "trunc (real_of_int c + 1 / real_of_int c) = c"
    by (simp add: trunc_nonneg)
  with assms show ?thesis
    by (simp add: add_reciprocal_def int_of_double_def INT_MIN_def INT_MAX_def)
qed

section \<open>Frame facts of tuning and sending\<close>

lemmas growth_defs = tahoe_congestion_control_def reno_congestion_control_def
  cubic_congestion_control_def bbr_congestion_control_def

text \<open>What adaptive tuning leaves alone.\<close>

lemma adaptive_congestion_response_frame:
  "cwnd (adaptive_congestion_response s) = cwnd s"
  "ssthresh (adaptive_congestion_response s) = ssthresh s"
  "current_state (adaptive_congestion_response s) = current_state s"
  "algorithm (adaptive_congestion_response s) = algorithm s"
  "rtt (adaptive_congestion_response s) = rtt s"
  "duplicate_ack_count (adaptive_congestion_response s) = duplicate_ack_count s"
  "packet_loss_rate (adaptive_congestion_response s) = packet_loss_rate s"
  "network_utilization (adaptive_congestion_response s) = network_utilization s"
  "cubic_c (adaptive_congestion_response s) = cubic_c s"
  "last_cwnd_reduction_time (adaptive_congestion_response s) = last_cwnd_reduction_time s"
  "cwnd_history (adaptive_congestion_response s) = cwnd_history s"
  "ssthresh_history (adaptive_congestion_response s) = ssthresh_history s"
  "state_history (adaptive_congestion_response s) = state_history s"
  "throughput_history (adaptive_congestion_response s) = throughput_history s"
  "rtt_history (adaptive_congestion_response s) = rtt_history s"
  by (simp_all add: adaptive_congestion_response_def Let_def)

lemma adaptive_congestion_response_beta:
  "cubic_beta (adaptive_congestion_response s) =
     (if algorithm s = CUBIC \<and> packet_loss_rate s > 5 / 100 then 8 / 10
      else if algorithm s = CUBIC \<and> packet_loss_rate s < 1 / 100 then 7 / 10
      else cubic_beta s)"
  by (simp add: adaptive_congestion_response_def Let_def)

lemma adaptive_congestion_response_timeout:
  "timeout (adaptive_congestion_response s) = int32 (rtt s * 2)"
  by (simp add: adaptive_congestion_response_def Let_def)

lemma tuned_adaptive_congestion_response:
  "tuned s \<Longrightarrow> tuned (adaptive_congestion_response s)"
  by (auto simp add: tuned_def adaptive_congestion_response_def Let_def)

text \<open>A send in slow start, under the three algorithms that have a slow start.\<close>

lemma send_packet_slow_start:
  assumes "current_state s = SLOW_START" and "algorithm s \<noteq> BBR"
    and "- (2 ^ 30) \<le> cwnd s" and "cwnd s < 2 ^ 30"
  shows "cwnd (send_packet now s) = 2 * cwnd s"
    and "ssthresh (send_packet now s) = ssthresh s"
    and "current_state (send_packet now s) =
      (if ssthresh s \<le> 2 * cwnd s then CONGESTION_AVOIDANCE else SLOW_START)"
    and "algorithm (send_packet now s) = algorithm s"
    and "cubic_c (send_packet now s) = cubic_c s"
    and "last_cwnd_reduction_time (send_packet now s) = last_cwnd_reduction_time s"
  using assms
  by (cases "algorithm s";
      simp add: send_packet_def Let_def adaptive_congestion_response_frame growth_defs
        int32_small mult.commute)+

lemma send_packet_tuned: "tuned s \<Longrightarrow> tuned (send_packet now s)"
  by (cases "algorithm s")
     (auto simp add: tuned_def send_packet_def Let_def adaptive_congestion_response_def growth_defs)


text \<open>A send after slow start.\<close>

lemma send_packet_avoidance_frame:
  assumes "current_state s \<noteq> SLOW_START" and "algorithm s \<noteq> BBR"
  shows "ssthresh (send_packet now s) = ssthresh s"
    and "current_state (send_packet now s) = current_state s"
    and "algorithm (send_packet now s) = algorithm s"
  using assms
  by (cases "algorithm s";
      simp add: send_packet_def Let_def adaptive_congestion_response_frame growth_defs)+

lemma send_packet_tahoe_avoidance:
  assumes "algorithm s = TAHOE" and "current_state s \<noteq> SLOW_START"
  shows "cwnd (send_packet now s) = int32 (cwnd s + 1)"
  using assms
  by (simp add: send_packet_def Let_def adaptive_congestion_response_frame growth_defs)

lemma send_packet_reno_avoidance:
  assumes "algorithm s = RENO" and "current_state s = CONGESTION_AVOIDANCE"
  shows "cwnd (send_packet now s) = add_reciprocal (cwnd s)"
  using assms
  by (simp add: send_packet_def Let_def adaptive_congestion_response_frame growth_defs)

lemma time_since_reduction_nonneg: "0 \<le> time_since_reduction now s"
  by (simp add: time_since_reduction_def uint64_def)

lemma cubic_wmax_lower:
  assumes "tuned s" and "0 \<le> cwnd s"
  shows "real_of_int (cwnd s) * (5 / 4) \<le> cubic_wmax s"
proof -
  have x: "0 \<le> real_of_int (cwnd s)" using assms(2) by simp
  from assms(1) have "cubic_beta s = 7 / 10 \<or> cubic_beta s = 8 / 10"
    by (simp add: tuned_def)
  then show ?thesis
  proof
    assume b: "cubic_beta s = 7 / 10"
    have "cubic_wmax s = real_of_int (cwnd s) * (10 / 7)"
      unfolding cubic_wmax_def b by simp
    with x show ?thesis by simp
  next
    assume b: "cubic_beta s = 8 / 10"
    have "cubic_wmax s = real_of_int (cwnd s) * (5 / 4)"
      unfolding cubic_wmax_def b by simp
    with x show ?thesis by simp
  qed
qed

lemma cubic_target_cwnd_lower:
  assumes "tuned s" and "0 \<le> cwnd s"
  shows "real_of_int (cwnd s) * (5 / 4) \<le> cubic_target_cwnd now s"
proof -
  have "0 \<le> cubic_c s * time_since_reduction now s ^ 3"
    using assms(1) time_since_reduction_nonneg [of now s] by (simp add: tuned_def)
  with cubic_wmax_lower [OF assms] show ?thesis
    by (simp add: cubic_target_cwnd_def)
qed

lemma cubic_target_cwnd_exceeds:
  assumes "tuned s" and "1 \<le> cwnd s"
  shows "real_of_int (cwnd s) < cubic_target_cwnd now s"
proof -
  have "real_of_int (cwnd s) < real_of_int (cwnd s) * (5 / 4)"
    using assms(2) by simp
  also have "\<dots> \<le> cubic_target_cwnd now s"
    using assms by (intro cubic_target_cwnd_lower) simp_all
  finally show ?thesis .
qed

lemma cubic_target_cwnd_frame:
  "cubic_target_cwnd now
     (s\<lparr>cwnd_history := a, ssthresh_history := b, throughput_history := c, rtt_history := d,
        state_history := e\<rparr>) = cubic_target_cwnd now s"
  by (simp add: cubic_target_cwnd_def cubic_wmax_def time_since_reduction_def)

lemma send_packet_cubic_avoidance:
  assumes "algorithm s = CUBIC" and "current_state s \<noteq> SLOW_START"
    and "real_of_int (cwnd s) < cubic_target_cwnd now s"
  shows "cwnd (send_packet now s) =
           int_of_double (min (cubic_target_cwnd now s) (real_of_int (cwnd s) + 1))"
  using assms
  by (simp add: send_packet_def Let_def adaptive_congestion_response_frame growth_defs
      cubic_target_cwnd_def cubic_wmax_def time_since_reduction_def)

lemma send_packet_cubic_avoidance_step:
  assumes "algorithm s = CUBIC" and "current_state s \<noteq> SLOW_START" and "tuned s"
    and "4 \<le> cwnd s" and "cwnd s < INT_MAX"
  shows "cwnd (send_packet now s) = cwnd s + 1"
proof -
  have low: "real_of_int (cwnd s) + 1 \<le> cubic_target_cwnd now s"
  proof -
    have "real_of_int (cwnd s) + 1 \<le> real_of_int (cwnd s) * (5 / 4)"
      using assms(4) by simp
    also have "\<dots> \<le> cubic_target_cwnd now s"
      using assms by (intro cubic_target_cwnd_lower) simp_all
    finally show ?thesis .
  qed
  then have "real_of_int (cwnd s) < cubic_target_cwnd now s" by simp
  from send_packet_cubic_avoidance [OF assms(1,2) this] low
  have "cwnd (send_packet now s) = int_of_double (real_of_int (cwnd s + 1))"
    by (simp add: min_def)
  also have "\<dots> = cwnd s + 1"
    using assms(4,5) by (simp add: int_of_double_def INT_MIN_def INT_MAX_def del: of_int_add)
  finally show ?thesis .
qed

section \<open>What each call records\<close>

lemma timeout_event_frame:
  "rtt (timeout_event now s) = rtt s"
  "network_utilization (timeout_event now s) = network_utilization s"
  "packet_loss_rate (timeout_event now s) = packet_loss_rate s"
  "algorithm (timeout_event now s) = algorithm s"
  "throughput_history (timeout_event now s) = throughput_history s"
  "rtt_history (timeout_event now s) = rtt_history s"
  "cwnd_history (timeout_event now s) = cwnd_history s @ [cwnd s]"
  "ssthresh_history (timeout_event now s) = ssthresh_history s @ [ssthresh s]"
  "duplicate_ack_count (timeout_event now s) = 0"
  "last_cwnd_reduction_time (timeout_event now s) = uint64 now"
  by (cases "algorithm s"; simp add: timeout_event_def Let_def)+

lemma send_packet_histories:
  "cwnd_history (send_packet now s) = cwnd_history s @ [cwnd s]"
  "ssthresh_history (send_packet now s) = ssthresh_history s @ [ssthresh s]"
  "throughput_history (send_packet now s) = throughput_history s @ [calculate_throughput s]"
  "rtt_history (send_packet now s) = rtt_history s @ [rtt s]"
  "duplicate_ack_count (send_packet now s) = duplicate_ack_count s"
  by (cases "algorithm s";
      simp add: send_packet_def Let_def adaptive_congestion_response_frame growth_defs
        calculate_throughput_def)+

lemma send_packet_state_history:
  assumes "current_state s \<noteq> TIMEOUT"
  shows "\<exists>l. state_history (send_packet now s) = state_history s @ [l]"
    and "current_state (send_packet now s) \<noteq> TIMEOUT"
  using assms
  by (cases "algorithm s"; cases "current_state s";
      simp add: send_packet_def Let_def adaptive_congestion_response_frame growth_defs)+

lemma send_packet_state_history_prefix:
  "prefix (state_history s) (state_history (send_packet now s))"
  by (cases "algorithm s"; cases "current_state s";
      simp add: send_packet_def Let_def adaptive_congestion_response_frame growth_defs)

lemma timeout_event_state_history:
  "\<exists>l. state_history (timeout_event now s) = state_history s @ [l]"
  by (cases "algorithm s"; simp add: timeout_event_def Let_def)

lemma timeout_event_current_state:
  "current_state s \<noteq> TIMEOUT \<Longrightarrow> current_state (timeout_event now s) \<noteq> TIMEOUT"
  by (cases "algorithm s"; simp add: timeout_event_def Let_def)

lemma duplicate_ack_below:
  assumes "0 \<le> duplicate_ack_count s" and "duplicate_ack_count s < 2"
  shows "duplicate_ack now s = s\<lparr>duplicate_ack_count := duplicate_ack_count s + 1\<rparr>"
  using assms by (simp add: duplicate_ack_def Let_def int32_small)

lemma duplicate_ack_third:
  assumes "duplicate_ack_count s = 2"
  shows "cwnd_history (duplicate_ack now s) = cwnd_history s @ [cwnd s]"
    and "ssthresh_history (duplicate_ack now s) = ssthresh_history s @ [ssthresh s]"
    and "\<exists>l. state_history (duplicate_ack now s) = state_history s @ [l]"
    and "throughput_history (duplicate_ack now s) = throughput_history s"
    and "rtt_history (duplicate_ack now s) = rtt_history s"
    and "duplicate_ack_count (duplicate_ack now s) = 0"
    and "current_state s \<noteq> TIMEOUT \<Longrightarrow> current_state (duplicate_ack now s) \<noteq> TIMEOUT"
  using assms
  by (cases "algorithm s"; simp add: duplicate_ack_def Let_def int32_small)+

text \<open>
  The CUBIC reductions at two windows: from 10 the threshold becomes 7, and from 90 it
  becomes 62, since the \<^verbatim>\<open>double\<close> product \<^verbatim>\<open>90 * 0.7\<close> is below 63.
\<close>

lemma cubic_reduction_rounds:
  "ssthresh (timeout_event now ((TCPTahoe CUBIC)\<lparr>cwnd := 10\<rparr>)) = 7"
  "ssthresh (timeout_event now ((TCPTahoe CUBIC)\<lparr>cwnd := 90\<rparr>)) = 62"
  "ssthresh (duplicate_ack now ((TCPTahoe CUBIC)\<lparr>cwnd := 90, duplicate_ack_count := 2\<rparr>)) = 62"
  "cwnd (duplicate_ack now ((TCPTahoe CUBIC)\<lparr>cwnd := 90, duplicate_ack_count := 2\<rparr>)) = 62"
  by (simp_all add: timeout_event_def duplicate_ack_def TCPTahoe_def int32_def Let_def
      double_mult_cubic_beta)

section \<open>The parameter fields keep their values\<close>

lemma tuned_TCPTahoe: "tuned (TCPTahoe a)"
  by (simp add: tuned_def TCPTahoe_def)

lemma tuned_timeout_event: "tuned s \<Longrightarrow> tuned (timeout_event now s)"
  by (cases "algorithm s") (simp_all add: tuned_def timeout_event_def Let_def)

lemma tuned_duplicate_ack: "tuned s \<Longrightarrow> tuned (duplicate_ack now s)"
  by (cases "algorithm s") (simp_all add: tuned_def duplicate_ack_def Let_def)

lemma tuned_simulate_network_congestion:
  "tuned s \<Longrightarrow> tuned (simulate_network_congestion u now s)"
  using tuned_timeout_event [of s now]
  by (simp add: simulate_network_congestion_def Let_def tuned_def)

lemma tuned_apply_operation: "tuned s \<Longrightarrow> tuned (apply_operation x s)"
proof (cases x)
  case (SendPacket now)
  then show "tuned s \<Longrightarrow> ?thesis" by (simp add: send_packet_tuned)
next
  case (TimeoutEvent now)
  then show "tuned s \<Longrightarrow> ?thesis" by (simp add: tuned_timeout_event)
next
  case (DuplicateAck now)
  then show "tuned s \<Longrightarrow> ?thesis" by (simp add: tuned_duplicate_ack)
next
  case (ReceiveAck k)
  then show "tuned s \<Longrightarrow> ?thesis" by (simp add: tuned_def receive_ack_def Let_def)
next
  case (SetNetworkConditions l u d)
  then show "tuned s \<Longrightarrow> ?thesis" by (simp add: tuned_def set_network_conditions_def)
next
  case (SetAlgorithm a)
  then show "tuned s \<Longrightarrow> ?thesis" by (simp add: tuned_def set_algorithm_def reset_def)
next
  case Reset
  then show "tuned s \<Longrightarrow> ?thesis" by (simp add: tuned_def reset_def)
next
  case (SimulateNetworkCongestion u now)
  then show "tuned s \<Longrightarrow> ?thesis" by (simp add: tuned_simulate_network_congestion)
next
  case AdaptiveCongestionResponse
  then show "tuned s \<Longrightarrow> ?thesis" by (simp add: tuned_adaptive_congestion_response)
qed

lemma tuned_run: "tuned s \<Longrightarrow> tuned (run xs s)"
  by (induction xs arbitrary: s) (simp_all add: tuned_apply_operation)

section \<open>Switching the algorithm\<close>

text \<open>
  Claim C6. For every prior state, \<^verbatim>\<open>set_algorithm(a)\<close> sets \<open>cwnd = 1\<close>,
  \<open>ssthresh = 65535\<close>, the phase to slow start and the duplicate-ack counter to 0, and
  empties the five histories; the round-trip time, the timeout, the loss rate, the
  utilization and the queue delay are what they were before the call. (The algorithm
  becomes \<open>a\<close>.)
\<close>

theorem set_algorithm_resets_window_state:
  "cwnd (set_algorithm a s) = 1 \<and> ssthresh (set_algorithm a s) = 65535
   \<and> current_state (set_algorithm a s) = SLOW_START
   \<and> duplicate_ack_count (set_algorithm a s) = 0
   \<and> cwnd_history (set_algorithm a s) = [] \<and> ssthresh_history (set_algorithm a s) = []
   \<and> state_history (set_algorithm a s) = [] \<and> throughput_history (set_algorithm a s) = []
   \<and> rtt_history (set_algorithm a s) = []
   \<and> algorithm (set_algorithm a s) = a
   \<and> rtt (set_algorithm a s) = rtt s \<and> timeout (set_algorithm a s) = timeout s
   \<and> packet_loss_rate (set_algorithm a s) = packet_loss_rate s
   \<and> network_utilization (set_algorithm a s) = network_utilization s
   \<and> queue_delay (set_algorithm a s) = queue_delay s"
  by (simp add: set_algorithm_def reset_def)

section \<open>Throughput\<close>

lemma send_packet_throughput_history:
  "throughput_history (send_packet now s) = throughput_history s @ [calculate_throughput s]"
  by (simp add: send_packet_def Let_def adaptive_congestion_response_def
      tahoe_congestion_control_def reno_congestion_control_def cubic_congestion_control_def
      bbr_congestion_control_def calculate_throughput_def split: CongestionAlgorithm.split)

text \<open>
  Claim C7. In every state the throughput that the getter returns, and that every
  \<^verbatim>\<open>send_packet\<close> appends to the throughput history, is
  \<open>(cwnd * 1500 * 8) / (rtt * 1000)\<close> when \<open>rtt\<close> is not 0 and is 0 when \<open>rtt = 0\<close>;
  the divisor of the quotient is not 0 whenever the quotient is computed.
\<close>

theorem throughput_formula:
  "get_current_throughput s =
     (if rtt s = 0 then 0
      else (real_of_int (cwnd s) * 1500 * 8) / (real_of_int (rtt s) * 1000))
   \<and> throughput_history (send_packet now s) = throughput_history s @ [get_current_throughput s]
   \<and> (rtt s \<noteq> 0 \<longrightarrow> real_of_int (rtt s) * 1000 \<noteq> 0)"
  by (simp add: get_current_throughput_def send_packet_throughput_history)
     (simp add: calculate_throughput_def)

theorem throughput_formula_witness:
  "rtt (TCPTahoe TAHOE) \<noteq> 0
   \<and> get_current_throughput (TCPTahoe TAHOE) = 3 / 25
   \<and> throughput_history (send_packet 0 (TCPTahoe TAHOE)) = [3 / 25]
   \<and> get_current_throughput ((TCPTahoe TAHOE)\<lparr>rtt := 0\<rparr>) = 0"
  using throughput_formula [of "TCPTahoe TAHOE" 0]
    throughput_formula [of "(TCPTahoe TAHOE)\<lparr>rtt := 0\<rparr>" 0]
  by (simp add: TCPTahoe_def)

section \<open>Fast retransmit and fast recovery under RENO\<close>

text \<open>
  Claim C4. Under RENO, from any state with \<open>cwnd = 16\<close> and a duplicate-ack count of 0:
  the first two \<^verbatim>\<open>duplicate_ack\<close> calls change nothing but the counter; the third sets
  \<open>ssthresh = 8\<close>, \<open>cwnd = 11\<close> and the phase to fast recovery (it also records the event:
  one entry in the window, threshold and label histories, the time of the reduction, and
  the counter back at 0); a following \<^verbatim>\<open>receive_ack(x)\<close>, for any \<open>x\<close>, gives
  \<open>cwnd = 8\<close>, the phase congestion avoidance and the counter 0, and changes nothing else.
\<close>

theorem reno_fast_recovery:
  assumes "algorithm s = RENO" and "cwnd s = 16" and "duplicate_ack_count s = 0"
  shows "duplicate_ack n1 s = s\<lparr>duplicate_ack_count := 1\<rparr>
    \<and> duplicate_ack n2 (duplicate_ack n1 s) = s\<lparr>duplicate_ack_count := 2\<rparr>
    \<and> duplicate_ack n3 (duplicate_ack n2 (duplicate_ack n1 s)) =
        s\<lparr>cwnd := 11, ssthresh := 8, current_state := FAST_RECOVERY, in_slow_start := False,
          duplicate_ack_count := 0,
          cwnd_history := cwnd_history s @ [16],
          ssthresh_history := ssthresh_history s @ [ssthresh s],
          state_history := state_history s @ [''Fast Retransmit''],
          last_cwnd_reduction_time := uint64 n3\<rparr>
    \<and> receive_ack x (duplicate_ack n3 (duplicate_ack n2 (duplicate_ack n1 s))) =
        (duplicate_ack n3 (duplicate_ack n2 (duplicate_ack n1 s)))
          \<lparr>cwnd := 8, current_state := CONGESTION_AVOIDANCE, duplicate_ack_count := 0\<rparr>"
proof -
  have one: "duplicate_ack n1 s = s\<lparr>duplicate_ack_count := 1\<rparr>"
    using assms by (simp add: duplicate_ack_def int32_def)
  have two: "duplicate_ack n2 (duplicate_ack n1 s) = s\<lparr>duplicate_ack_count := 2\<rparr>"
    using assms by (simp add: one) (simp add: duplicate_ack_def int32_def)
  have three: "duplicate_ack n3 (duplicate_ack n2 (duplicate_ack n1 s)) =
        s\<lparr>cwnd := 11, ssthresh := 8, current_state := FAST_RECOVERY, in_slow_start := False,
          duplicate_ack_count := 0,
          cwnd_history := cwnd_history s @ [16],
          ssthresh_history := ssthresh_history s @ [ssthresh s],
          state_history := state_history s @ [''Fast Retransmit''],
          last_cwnd_reduction_time := uint64 n3\<rparr>"
    using assms by (simp add: two) (simp add: duplicate_ack_def int32_def c_div_def)
  have four: "receive_ack x (duplicate_ack n3 (duplicate_ack n2 (duplicate_ack n1 s))) =
        (duplicate_ack n3 (duplicate_ack n2 (duplicate_ack n1 s)))
          \<lparr>cwnd := 8, current_state := CONGESTION_AVOIDANCE, duplicate_ack_count := 0\<rparr>"
    using assms by (simp add: three) (simp add: receive_ack_def)
  from one two three four show ?thesis by blast
qed

text \<open>The theorem at a RENO session whose window is 16.\<close>

theorem reno_fast_recovery_witness:
  "algorithm ((TCPTahoe RENO)\<lparr>cwnd := 16\<rparr>) = RENO
   \<and> cwnd ((TCPTahoe RENO)\<lparr>cwnd := 16\<rparr>) = 16
   \<and> duplicate_ack_count ((TCPTahoe RENO)\<lparr>cwnd := 16\<rparr>) = 0
   \<and> cwnd (duplicate_ack 7 (duplicate_ack 6 (duplicate_ack 5
        ((TCPTahoe RENO)\<lparr>cwnd := 16\<rparr>)))) = 11
   \<and> ssthresh (duplicate_ack 7 (duplicate_ack 6 (duplicate_ack 5
        ((TCPTahoe RENO)\<lparr>cwnd := 16\<rparr>)))) = 8
   \<and> current_state (duplicate_ack 7 (duplicate_ack 6 (duplicate_ack 5
        ((TCPTahoe RENO)\<lparr>cwnd := 16\<rparr>)))) = FAST_RECOVERY
   \<and> cwnd (receive_ack 1 (duplicate_ack 7 (duplicate_ack 6 (duplicate_ack 5
        ((TCPTahoe RENO)\<lparr>cwnd := 16\<rparr>))))) = 8
   \<and> current_state (receive_ack 1 (duplicate_ack 7 (duplicate_ack 6 (duplicate_ack 5
        ((TCPTahoe RENO)\<lparr>cwnd := 16\<rparr>))))) = CONGESTION_AVOIDANCE"
proof -
  have pre: "algorithm ((TCPTahoe RENO)\<lparr>cwnd := 16\<rparr>) = RENO"
    "cwnd ((TCPTahoe RENO)\<lparr>cwnd := 16\<rparr>) = 16"
    "duplicate_ack_count ((TCPTahoe RENO)\<lparr>cwnd := 16\<rparr>) = 0"
    by (simp_all add: TCPTahoe_def)
  note r = reno_fast_recovery [OF pre, of 5 6 7 1]
  from r have three: "duplicate_ack 7 (duplicate_ack 6 (duplicate_ack 5
        ((TCPTahoe RENO)\<lparr>cwnd := 16\<rparr>))) =
      (TCPTahoe RENO)\<lparr>cwnd := 16\<rparr>\<lparr>cwnd := 11, ssthresh := 8, current_state := FAST_RECOVERY,
          in_slow_start := False, duplicate_ack_count := 0,
          cwnd_history := cwnd_history ((TCPTahoe RENO)\<lparr>cwnd := 16\<rparr>) @ [16],
          ssthresh_history := ssthresh_history ((TCPTahoe RENO)\<lparr>cwnd := 16\<rparr>)
            @ [ssthresh ((TCPTahoe RENO)\<lparr>cwnd := 16\<rparr>)],
          state_history := state_history ((TCPTahoe RENO)\<lparr>cwnd := 16\<rparr>) @ [''Fast Retransmit''],
          last_cwnd_reduction_time := uint64 7\<rparr>"
    by blast
  from r have four: "receive_ack 1 (duplicate_ack 7 (duplicate_ack 6 (duplicate_ack 5
        ((TCPTahoe RENO)\<lparr>cwnd := 16\<rparr>)))) =
      (duplicate_ack 7 (duplicate_ack 6 (duplicate_ack 5 ((TCPTahoe RENO)\<lparr>cwnd := 16\<rparr>))))
        \<lparr>cwnd := 8, current_state := CONGESTION_AVOIDANCE, duplicate_ack_count := 0\<rparr>"
    by blast
  show ?thesis
    unfolding four unfolding three by (simp add: TCPTahoe_def)
qed

section \<open>The additive increase under RENO\<close>

text \<open>
  Claim C2. Under RENO, in congestion avoidance with \<open>cwnd \<ge> 1\<close>, one
  \<^verbatim>\<open>send_packet\<close> would raise the window by \<open>1 / cwnd\<close>. The method computes
  \<^verbatim>\<open>cwnd += 1.0 / cwnd\<close> on an \<^verbatim>\<open>int\<close>, so the sum is cut back to a whole number: a
  window of 2 or more stays what it was. The theorem runs the code from a new RENO
  session through a timeout and a send, which leaves the session in congestion avoidance
  with \<open>cwnd = 2\<close>; the next send leaves \<open>cwnd = 2\<close>, not \<open>2 + 1/2\<close>.
\<close>

theorem reno_avoidance_send_keeps_window:
  "algorithm (run [TimeoutEvent 0, SendPacket 1] (TCPTahoe RENO)) = RENO
   \<and> current_state (run [TimeoutEvent 0, SendPacket 1] (TCPTahoe RENO)) = CONGESTION_AVOIDANCE
   \<and> cwnd (run [TimeoutEvent 0, SendPacket 1] (TCPTahoe RENO)) = 2
   \<and> cwnd (send_packet 2 (run [TimeoutEvent 0, SendPacket 1] (TCPTahoe RENO))) = 2
   \<and> real_of_int (cwnd (send_packet 2 (run [TimeoutEvent 0, SendPacket 1] (TCPTahoe RENO))))
       \<noteq> 2 + 1 / 2"
proof -
  have t: "timeout_event 0 (TCPTahoe RENO) =
      (TCPTahoe RENO)\<lparr>cwnd_history := [1], ssthresh_history := [65535],
        state_history := [''Timeout''], ssthresh := 1\<rparr>"
    by (simp add: timeout_event_def TCPTahoe_def c_div_def uint64_def)
  have a: "algorithm (send_packet 1 (timeout_event 0 (TCPTahoe RENO))) = RENO"
    and b: "current_state (send_packet 1 (timeout_event 0 (TCPTahoe RENO))) = CONGESTION_AVOIDANCE"
    and c: "cwnd (send_packet 1 (timeout_event 0 (TCPTahoe RENO))) = 2"
    unfolding t by (simp_all add: send_packet_slow_start TCPTahoe_def)
  have d: "cwnd (send_packet 2 (send_packet 1 (timeout_event 0 (TCPTahoe RENO)))) = 2"
    using send_packet_reno_avoidance [OF a b, of 2]
    by (simp add: c add_reciprocal_idle INT_MAX_def)
  show ?thesis
    by (simp add: a b c d)
qed

section \<open>Slow start\<close>

text \<open>
  Claim C3, as stated: under TAHOE, RENO or CUBIC, from \<open>cwnd = 1\<close>, \<open>ssthresh = 8\<close> in
  slow start, four sends give the windows 2, 4, 8, 9. Under RENO the fourth send is a
  send in congestion avoidance and leaves the window at 8.
\<close>

theorem slow_start_doubling_reno_counterexample:
  "cwnd ((TCPTahoe RENO)\<lparr>ssthresh := 8\<rparr>) = 1
   \<and> ssthresh ((TCPTahoe RENO)\<lparr>ssthresh := 8\<rparr>) = 8
   \<and> current_state ((TCPTahoe RENO)\<lparr>ssthresh := 8\<rparr>) = SLOW_START
   \<and> algorithm ((TCPTahoe RENO)\<lparr>ssthresh := 8\<rparr>) = RENO
   \<and> cwnd (send_packet 4 (send_packet 3 (send_packet 2 (send_packet 1
        ((TCPTahoe RENO)\<lparr>ssthresh := 8\<rparr>))))) = 8"
  by (simp add: TCPTahoe_def send_packet_slow_start send_packet_reno_avoidance
      add_reciprocal_idle INT_MAX_def)

text \<open>
  Claim C3, amended. From a state with \<open>cwnd = 1\<close>, \<open>ssthresh = 8\<close> in slow start, under
  TAHOE, RENO or CUBIC, the first three sends give the windows 2, 4 and 8, and the phase
  becomes congestion avoidance at the third send and not before; under TAHOE and under
  CUBIC the fourth send gives 9, in congestion avoidance. (The parameter fields have the
  values the constructor and tuning give them; the clock readings \<open>t1\<close> to \<open>t4\<close> are
  arbitrary.)
\<close>

theorem slow_start_doubling:
  assumes "cwnd s = 1" and "ssthresh s = 8" and "current_state s = SLOW_START"
    and "algorithm s \<noteq> BBR" and "tuned s"
  shows "cwnd (send_packet t1 s) = 2
    \<and> current_state (send_packet t1 s) = SLOW_START
    \<and> cwnd (send_packet t2 (send_packet t1 s)) = 4
    \<and> current_state (send_packet t2 (send_packet t1 s)) = SLOW_START
    \<and> cwnd (send_packet t3 (send_packet t2 (send_packet t1 s))) = 8
    \<and> current_state (send_packet t3 (send_packet t2 (send_packet t1 s))) = CONGESTION_AVOIDANCE
    \<and> (algorithm s \<noteq> RENO \<longrightarrow>
         cwnd (send_packet t4 (send_packet t3 (send_packet t2 (send_packet t1 s)))) = 9
         \<and> current_state (send_packet t4 (send_packet t3 (send_packet t2 (send_packet t1 s))))
             = CONGESTION_AVOIDANCE)"
proof -
  let ?s1 = "send_packet t1 s"
  let ?s2 = "send_packet t2 ?s1"
  let ?s3 = "send_packet t3 ?s2"
  let ?s4 = "send_packet t4 ?s3"
  have s1: "cwnd ?s1 = 2" "ssthresh ?s1 = 8" "current_state ?s1 = SLOW_START"
    "algorithm ?s1 = algorithm s" "tuned ?s1"
    using assms by (simp_all add: send_packet_slow_start send_packet_tuned)
  have s2: "cwnd ?s2 = 4" "ssthresh ?s2 = 8" "current_state ?s2 = SLOW_START"
    "algorithm ?s2 = algorithm s" "tuned ?s2"
    using assms(4) s1 by (simp_all add: send_packet_slow_start send_packet_tuned)
  have s3: "cwnd ?s3 = 8" "ssthresh ?s3 = 8" "current_state ?s3 = CONGESTION_AVOIDANCE"
    "algorithm ?s3 = algorithm s" "tuned ?s3"
    using assms(4) s2 by (simp_all add: send_packet_slow_start send_packet_tuned)
  have s4: "cwnd ?s4 = 9 \<and> current_state ?s4 = CONGESTION_AVOIDANCE" if "algorithm s \<noteq> RENO"
  proof (cases "algorithm s")
    case TAHOE
    with s3 show ?thesis
      by (simp add: send_packet_tahoe_avoidance send_packet_avoidance_frame int32_small)
  next
    case RENO
    with that show ?thesis by simp
  next
    case CUBIC
    with s3 show ?thesis
      by (simp add: send_packet_cubic_avoidance_step send_packet_avoidance_frame INT_MAX_def)
  next
    case BBR
    with assms(4) show ?thesis by simp
  qed
  from s1 s2 s3 s4 show ?thesis by simp
qed

text \<open>The theorem at a CUBIC session whose threshold is 8.\<close>

theorem slow_start_doubling_witness:
  "cwnd ((TCPTahoe CUBIC)\<lparr>ssthresh := 8\<rparr>) = 1
   \<and> ssthresh ((TCPTahoe CUBIC)\<lparr>ssthresh := 8\<rparr>) = 8
   \<and> current_state ((TCPTahoe CUBIC)\<lparr>ssthresh := 8\<rparr>) = SLOW_START
   \<and> algorithm ((TCPTahoe CUBIC)\<lparr>ssthresh := 8\<rparr>) \<noteq> BBR
   \<and> algorithm ((TCPTahoe CUBIC)\<lparr>ssthresh := 8\<rparr>) \<noteq> RENO
   \<and> tuned ((TCPTahoe CUBIC)\<lparr>ssthresh := 8\<rparr>)
   \<and> cwnd (send_packet 40 (send_packet 30 (send_packet 20 (send_packet 10
        ((TCPTahoe CUBIC)\<lparr>ssthresh := 8\<rparr>))))) = 9
   \<and> current_state (send_packet 30 (send_packet 20 (send_packet 10
        ((TCPTahoe CUBIC)\<lparr>ssthresh := 8\<rparr>)))) = CONGESTION_AVOIDANCE
   \<and> current_state (send_packet 20 (send_packet 10
        ((TCPTahoe CUBIC)\<lparr>ssthresh := 8\<rparr>))) = SLOW_START"
proof -
  have pre: "cwnd ((TCPTahoe CUBIC)\<lparr>ssthresh := 8\<rparr>) = 1"
    "ssthresh ((TCPTahoe CUBIC)\<lparr>ssthresh := 8\<rparr>) = 8"
    "current_state ((TCPTahoe CUBIC)\<lparr>ssthresh := 8\<rparr>) = SLOW_START"
    "algorithm ((TCPTahoe CUBIC)\<lparr>ssthresh := 8\<rparr>) \<noteq> BBR"
    "tuned ((TCPTahoe CUBIC)\<lparr>ssthresh := 8\<rparr>)"
    by (simp_all add: TCPTahoe_def tuned_def)
  have alg: "algorithm ((TCPTahoe CUBIC)\<lparr>ssthresh := 8\<rparr>) \<noteq> RENO"
    by (simp add: TCPTahoe_def)
  from slow_start_doubling [OF pre, of 10 20 30 40] alg pre show ?thesis
    by blast
qed

section \<open>The cubic window function\<close>

text \<open>
  Claim C10. In every state that a session reaches (the constructor followed by any
  calls; \<open>cubic_beta\<close> is then 0.7 or 0.8 and \<open>cubic_c\<close> is 0.4) with \<open>cwnd \<ge> 1\<close>, under
  CUBIC in congestion avoidance: the target \<open>cubic_c * t ^ 3 + cwnd / cubic_beta\<close> is
  above \<open>cwnd\<close> for every elapsed time \<open>t \<ge> 0\<close>; the elapsed time the method computes is
  never negative; so the test \<^verbatim>\<open>target_cwnd > cwnd\<close> succeeds, the branch
  \<^verbatim>\<open>cwnd += 1.0 / cwnd\<close> is not taken, and the send stores
  \<open>min target (cwnd + 1)\<close>, converted to \<^verbatim>\<open>int\<close>.
\<close>

theorem cubic_target_above_window:
  assumes "s = run xs (TCPTahoe a)"
    and "1 \<le> cwnd s" and "algorithm s = CUBIC"
    and "current_state s = CONGESTION_AVOIDANCE"
  shows "(\<forall>t\<ge>0. real_of_int (cwnd s) < cubic_c s * t ^ 3 + cubic_wmax s)
    \<and> 0 \<le> time_since_reduction now s
    \<and> real_of_int (cwnd s) < cubic_target_cwnd now s
    \<and> cubic_congestion_control now s
        = s\<lparr>state_history := state_history s @ [''CUBIC Congestion Avoidance''],
            cwnd := int_of_double (min (cubic_target_cwnd now s) (real_of_int (cwnd s) + 1))\<rparr>
    \<and> cwnd (send_packet now s)
        = int_of_double (min (cubic_target_cwnd now s) (real_of_int (cwnd s) + 1))"
proof -
  have tuned: "tuned s"
    unfolding assms(1) by (intro tuned_run tuned_TCPTahoe)
  have every: "real_of_int (cwnd s) < cubic_c s * t ^ 3 + cubic_wmax s" if "0 \<le> t" for t
  proof -
    have "real_of_int (cwnd s) < real_of_int (cwnd s) * (5 / 4)"
      using assms(2) by simp
    also have "\<dots> \<le> cubic_wmax s"
      using cubic_wmax_lower [OF tuned] assms(2) by simp
    also have "\<dots> \<le> cubic_c s * t ^ 3 + cubic_wmax s"
      using tuned that by (simp add: tuned_def)
    finally show ?thesis .
  qed
  have above: "real_of_int (cwnd s) < cubic_target_cwnd now s"
    using tuned assms(2) by (rule cubic_target_cwnd_exceeds)
  moreover have "current_state s \<noteq> SLOW_START"
    using assms(4) by simp
  ultimately have "cwnd (send_packet now s)
      = int_of_double (min (cubic_target_cwnd now s) (real_of_int (cwnd s) + 1))"
    using assms(3) by (simp add: send_packet_cubic_avoidance)
  moreover have "cubic_congestion_control now s
      = s\<lparr>state_history := state_history s @ [''CUBIC Congestion Avoidance''],
          cwnd := int_of_double (min (cubic_target_cwnd now s) (real_of_int (cwnd s) + 1))\<rparr>"
    using above assms(4)
    by (simp add: cubic_congestion_control_def Let_def cubic_target_cwnd_def cubic_wmax_def
        time_since_reduction_def)
  ultimately show ?thesis
    using every above time_since_reduction_nonneg [of now s] by blast
qed

text \<open>
  The theorem at the state of a new CUBIC session after a timeout and a send: congestion
  avoidance with a window of 2.
\<close>

lemma run_timeout_send_cubic:
  "run [TimeoutEvent 0, SendPacket 1] (TCPTahoe CUBIC) =
     send_packet 1 ((TCPTahoe CUBIC)\<lparr>cwnd_history := [1], ssthresh_history := [65535],
        state_history := [''CUBIC Timeout''], ssthresh := 1\<rparr>)"
  by (simp add: timeout_event_def TCPTahoe_def uint64_def double_mult_cubic_beta)

theorem cubic_target_above_window_witness:
  "1 \<le> cwnd (run [TimeoutEvent 0, SendPacket 1] (TCPTahoe CUBIC))
   \<and> algorithm (run [TimeoutEvent 0, SendPacket 1] (TCPTahoe CUBIC)) = CUBIC
   \<and> current_state (run [TimeoutEvent 0, SendPacket 1] (TCPTahoe CUBIC)) = CONGESTION_AVOIDANCE
   \<and> real_of_int (cwnd (run [TimeoutEvent 0, SendPacket 1] (TCPTahoe CUBIC)))
       < cubic_target_cwnd 5000 (run [TimeoutEvent 0, SendPacket 1] (TCPTahoe CUBIC))
   \<and> cwnd (send_packet 5000 (run [TimeoutEvent 0, SendPacket 1] (TCPTahoe CUBIC)))
       = int_of_double (min
           (cubic_target_cwnd 5000 (run [TimeoutEvent 0, SendPacket 1] (TCPTahoe CUBIC)))
           (real_of_int (cwnd (run [TimeoutEvent 0, SendPacket 1] (TCPTahoe CUBIC))) + 1))"
proof -
  have pre: "1 \<le> cwnd (run [TimeoutEvent 0, SendPacket 1] (TCPTahoe CUBIC))"
    "algorithm (run [TimeoutEvent 0, SendPacket 1] (TCPTahoe CUBIC)) = CUBIC"
    "current_state (run [TimeoutEvent 0, SendPacket 1] (TCPTahoe CUBIC)) = CONGESTION_AVOIDANCE"
    unfolding run_timeout_send_cubic
    by (simp_all add: send_packet_slow_start TCPTahoe_def)
  from cubic_target_above_window [OF refl pre, of 5000] pre show ?thesis
    by blast
qed

section \<open>Adaptive tuning\<close>

lemma send_packet_tuning:
  "cubic_beta (send_packet now s) = cubic_beta (adaptive_congestion_response s)"
  "timeout (send_packet now s) = timeout (adaptive_congestion_response s)"
  by (cases "algorithm s";
      simp add: send_packet_def Let_def adaptive_congestion_response_def growth_defs)+

lemma simulate_network_congestion_doubles:
  assumes "network_utilization s = 1" and "packet_loss_rate s = 0"
    and "0 \<le> rtt s" and "rtt s * 2 \<le> INT_MAX"
  shows "simulate_network_congestion (1 / 2) now s = s\<lparr>rtt := rtt s * 2\<rparr>"
proof -
  have small: "\<bar>rtt s\<bar> < 2 ^ 53" "\<bar>rtt s * 2\<bar> < 2 ^ 53"
    using assms(3,4) by (simp_all add: INT_MAX_def)
  have "double_mult (real_of_int (rtt s)) (double_add 1 1)
      = binary64 (real_of_int (rtt s * 2))"
    by (simp add: double_mult_def double_add_def binary64_of_int [OF small(1)])
  also have "\<dots> = real_of_int (rtt s * 2)"
    by (rule binary64_of_int [OF small(2)])
  finally have "int_of_double (double_mult (real_of_int (rtt s)) (double_add 1 1)) = rtt s * 2"
    using assms(3,4) by (simp only: int_of_double_def trunc_of_int Let_def)
      (simp add: INT_MIN_def INT_MAX_def)
  with assms(1,2) show ?thesis
    by (simp add: simulate_network_congestion_def Let_def)
qed

lemma simulate_network_congestion_doubles_funpow:
  assumes "network_utilization s = 1" and "packet_loss_rate s = 0"
    and "0 \<le> rtt s" and "rtt s * 2 ^ n \<le> INT_MAX"
  shows "(simulate_network_congestion (1 / 2) now ^^ n) s = s\<lparr>rtt := rtt s * 2 ^ n\<rparr>"
  using assms(4)
proof (induction n)
  case 0
  show ?case by simp
next
  case (Suc n)
  have "rtt s * 2 ^ n \<le> rtt s * 2 ^ Suc n"
    using assms(3) by (simp add: mult_left_mono)
  with Suc.prems have le: "rtt s * 2 ^ n \<le> INT_MAX" by simp
  let ?t = "s\<lparr>rtt := rtt s * 2 ^ n\<rparr>"
  have "(simulate_network_congestion (1 / 2) now ^^ Suc n) s
      = simulate_network_congestion (1 / 2) now ?t"
    by (simp add: Suc.IH [OF le])
  also have "\<dots> = ?t\<lparr>rtt := rtt ?t * 2\<rparr>"
    using assms(1,2,3) Suc.prems
    by (intro simulate_network_congestion_doubles) (simp_all add: mult.assoc)
  also have "\<dots> = s\<lparr>rtt := rtt s * 2 ^ Suc n\<rparr>"
    by (simp add: mult.assoc)
  finally show ?case .
qed

lemma saturated_link_rtt:
  "(simulate_network_congestion (1 / 2) 0 ^^ 24) (set_network_conditions 0 1 0 (TCPTahoe CUBIC))
     = (set_network_conditions 0 1 0 (TCPTahoe CUBIC))\<lparr>rtt := 1677721600\<rparr>"
proof -
  let ?s = "set_network_conditions 0 1 0 (TCPTahoe CUBIC)"
  have "(simulate_network_congestion (1 / 2) 0 ^^ 24) ?s = ?s\<lparr>rtt := rtt ?s * 2 ^ 24\<rparr>"
    by (rule simulate_network_congestion_doubles_funpow)
       (simp_all add: set_network_conditions_def TCPTahoe_def INT_MAX_def)
  also have "rtt ?s * 2 ^ 24 = 1677721600"
    by (simp add: set_network_conditions_def TCPTahoe_def)
  finally show ?thesis .
qed

text \<open>
  Claim C8, as stated: after every send, tuning sets \<open>cubic_beta\<close> to 0.8 when the loss
  rate is above 0.05 and to 0.7 when it is below 0.01, and sets the timeout to twice the
  round-trip time. Under TAHOE with a loss rate of 0.1 the field \<open>cubic_beta\<close> keeps its
  0.7, since both assignments are guarded by \<^verbatim>\<open>algorithm == CUBIC\<close>. And with the link
  reported as fully utilized, 24 calls of the congestion stimulus bring the round-trip
  time from 100 to 1677721600, whose double does not fit the \<^verbatim>\<open>int\<close> field.
\<close>

theorem adaptive_tuning_counterexample:
  "packet_loss_rate (set_network_conditions (1 / 10) 0 0 (TCPTahoe TAHOE)) > 5 / 100
   \<and> cubic_beta (adaptive_congestion_response
         (set_network_conditions (1 / 10) 0 0 (TCPTahoe TAHOE))) = 7 / 10
   \<and> cubic_beta (send_packet 0 (set_network_conditions (1 / 10) 0 0 (TCPTahoe TAHOE))) = 7 / 10
   \<and> rtt ((simulate_network_congestion (1 / 2) 0 ^^ 24)
             (set_network_conditions 0 1 0 (TCPTahoe CUBIC))) * 2 = 3355443200
   \<and> timeout (adaptive_congestion_response
        ((simulate_network_congestion (1 / 2) 0 ^^ 24)
           (set_network_conditions 0 1 0 (TCPTahoe CUBIC)))) = - 939524096"
  unfolding saturated_link_rtt
  by (simp add: send_packet_tuning)
     (simp add: set_network_conditions_def TCPTahoe_def adaptive_congestion_response_def int32_def)

text \<open>
  Claim C8, amended. Tuning runs at the end of every send, and in every state: under
  CUBIC it sets \<open>cubic_beta\<close> to 0.8 when the loss rate is above 0.05, to 0.7 when the loss
  rate is below 0.01, and leaves it in between; under the other algorithms it leaves
  \<open>cubic_beta\<close> as it is; and it sets the timeout to twice the round-trip time whenever
  that product fits an \<^verbatim>\<open>int\<close>.
\<close>

theorem adaptive_tuning:
  "cubic_beta (adaptive_congestion_response s) =
     (if algorithm s = CUBIC \<and> packet_loss_rate s > 5 / 100 then 8 / 10
      else if algorithm s = CUBIC \<and> packet_loss_rate s < 1 / 100 then 7 / 10
      else cubic_beta s)
   \<and> (- (2 ^ 30) \<le> rtt s \<and> rtt s < 2 ^ 30 \<longrightarrow>
        timeout (adaptive_congestion_response s) = rtt s * 2)
   \<and> cubic_beta (send_packet now s) = cubic_beta (adaptive_congestion_response s)
   \<and> timeout (send_packet now s) = timeout (adaptive_congestion_response s)"
  by (simp add: send_packet_tuning adaptive_congestion_response_beta
      adaptive_congestion_response_timeout int32_small)

text \<open>The theorem at a new CUBIC session told of a loss rate of 0.1.\<close>

theorem adaptive_tuning_witness:
  "algorithm (set_network_conditions (1 / 10) 0 0 (TCPTahoe CUBIC)) = CUBIC
   \<and> packet_loss_rate (set_network_conditions (1 / 10) 0 0 (TCPTahoe CUBIC)) > 5 / 100
   \<and> - (2 ^ 30) \<le> rtt (set_network_conditions (1 / 10) 0 0 (TCPTahoe CUBIC))
   \<and> rtt (set_network_conditions (1 / 10) 0 0 (TCPTahoe CUBIC)) < 2 ^ 30
   \<and> cubic_beta (send_packet 0 (set_network_conditions (1 / 10) 0 0 (TCPTahoe CUBIC))) = 8 / 10
   \<and> timeout (send_packet 0 (set_network_conditions (1 / 10) 0 0 (TCPTahoe CUBIC))) = 200"
  using adaptive_tuning [of "set_network_conditions (1 / 10) 0 0 (TCPTahoe CUBIC)" 0]
  by (simp add: set_network_conditions_def TCPTahoe_def)

section \<open>The randomized stimulus\<close>

text \<open>
  The inflation \<^verbatim>\<open>rtt * (1.0 + network_utilization)\<close> at a few inputs. At a utilization
  of 0.75 every step is exact. At 0.82 the sum is the \<^verbatim>\<open>double\<close> below 1.82 and the
  product falls short of 182; at the \<^verbatim>\<open>double\<close> nearest to 0.71 the sum rounds up and
  the product is 171.
\<close>

lemma double_inflation:
  "double_mult 100 (double_add 1 (3 / 4)) = 175"
  "double_mult 175 (double_add 1 (3 / 4)) = 1225 / 4"
  "double_mult 100 (double_add 1 (82 / 100)) = 6403555720167423 / 35184372088832"
  "double_mult 100 (double_add 1 (41 / 50)) = 6403555720167423 / 35184372088832"
  "double_mult 100 (double_add 1 (799388933858263 / 1125899906842624)) = 171"
  by code_simp+

text \<open>
  Claim C9, as stated: the stimulus is a function of the session state and of an injected,
  seeded random source, and it inflates the round-trip time by the factor
  \<open>1 + utilization\<close>. The method takes no source and no seed: each call seeds a new
  generator from \<^verbatim>\<open>std::random_device\<close>. So one state and one sequence of calls do not
  fix the outcome: with a loss rate of 0.3, a call that draws 0 runs the timeout and a
  call that draws 0.5 does not. And the inflated round-trip time is a \<^verbatim>\<open>double\<close>
  product stored in an \<^verbatim>\<open>int\<close>: at a utilization of 0.75 it goes from 100 to 175 and
  then to 306, not to 306.25; at a utilization of 0.82 it goes from 100 to 181, where
  the exact product is 182.
\<close>

theorem simulate_network_congestion_counterexample:
  "simulate_network_congestion 0 0 (set_network_conditions (3 / 10) 0 0 (TCPTahoe TAHOE))
     \<noteq> simulate_network_congestion (1 / 2) 0
          (set_network_conditions (3 / 10) 0 0 (TCPTahoe TAHOE))
   \<and> cwnd_history (simulate_network_congestion 0 0
        (set_network_conditions (3 / 10) 0 0 (TCPTahoe TAHOE))) = [1]
   \<and> cwnd_history (simulate_network_congestion (1 / 2) 0
        (set_network_conditions (3 / 10) 0 0 (TCPTahoe TAHOE))) = []
   \<and> rtt (simulate_network_congestion (1 / 2) 0
        (set_network_conditions 0 (3 / 4) 0 (TCPTahoe TAHOE))) = 175
   \<and> rtt (simulate_network_congestion (1 / 2) 0 (simulate_network_congestion (1 / 2) 0
        (set_network_conditions 0 (3 / 4) 0 (TCPTahoe TAHOE)))) = 306
   \<and> (175 :: real) * (1 + 3 / 4) = 306 + 1 / 4
   \<and> rtt (simulate_network_congestion (1 / 2) 0
        (set_network_conditions 0 (82 / 100) 0 (TCPTahoe TAHOE))) = 181
   \<and> \<lfloor>(100 :: real) * (1 + 82 / 100)\<rfloor> = 182"
proof -
  have a: "cwnd_history (simulate_network_congestion 0 0
        (set_network_conditions (3 / 10) 0 0 (TCPTahoe TAHOE))) = [1]"
    by (simp add: simulate_network_congestion_def set_network_conditions_def
        timeout_event_frame Let_def TCPTahoe_def)
  have b: "cwnd_history (simulate_network_congestion (1 / 2) 0
        (set_network_conditions (3 / 10) 0 0 (TCPTahoe TAHOE))) = []"
    by (simp add: simulate_network_congestion_def set_network_conditions_def
        Let_def TCPTahoe_def)
  have c: "simulate_network_congestion (1 / 2) 0
        (set_network_conditions 0 (3 / 4) 0 (TCPTahoe TAHOE))
      = (set_network_conditions 0 (3 / 4) 0 (TCPTahoe TAHOE))\<lparr>rtt := 175\<rparr>"
    by (simp add: simulate_network_congestion_def set_network_conditions_def
        Let_def TCPTahoe_def double_inflation int_of_double_def trunc_def INT_MIN_def INT_MAX_def)
  have d: "rtt (simulate_network_congestion (1 / 2) 0 (simulate_network_congestion (1 / 2) 0
        (set_network_conditions 0 (3 / 4) 0 (TCPTahoe TAHOE)))) = 306"
    unfolding c
    by (simp add: simulate_network_congestion_def set_network_conditions_def
        Let_def TCPTahoe_def double_inflation int_of_double_def trunc_def INT_MIN_def INT_MAX_def)
  have e: "rtt (simulate_network_congestion (1 / 2) 0
        (set_network_conditions 0 (82 / 100) 0 (TCPTahoe TAHOE))) = 181"
    by (simp add: simulate_network_congestion_def set_network_conditions_def
        Let_def TCPTahoe_def double_inflation int_of_double_def trunc_def INT_MIN_def INT_MAX_def)
  from a b d e show ?thesis by (auto simp add: c)
qed

text \<open>
  Claim C9, amended. The stimulus is a function of the session state, of the clock and of
  the number \<open>u\<close> that its own generator draws: it is the state after
  \<^verbatim>\<open>timeout_event\<close> when \<open>u\<close> is below the loss rate and the state itself otherwise,
  with the round-trip time replaced, exactly when the utilization is above 0.7, by the
  conversion to \<^verbatim>\<open>int\<close> of the \<^verbatim>\<open>double\<close> product \<^verbatim>\<open>rtt * (1.0 + utilization)\<close>, the
  sum and the product each rounded to the nearest \<^verbatim>\<open>double\<close> (the conversion is the
  floor of that product when the product is not negative and below \<open>2 ^ 31\<close>). Two draws
  on the same side of the loss rate give the same state.
\<close>

theorem simulate_network_congestion_effect:
  "simulate_network_congestion u now s =
     (if u < packet_loss_rate s then timeout_event now s else s)
       \<lparr>rtt := (if network_utilization s > 7 / 10
                then int_of_double
                  (double_mult (real_of_int (rtt s)) (double_add 1 (network_utilization s)))
                else rtt s)\<rparr>
   \<and> (network_utilization s > 7 / 10
        \<and> 0 \<le> double_mult (real_of_int (rtt s)) (double_add 1 (network_utilization s))
        \<and> double_mult (real_of_int (rtt s)) (double_add 1 (network_utilization s)) < 2 ^ 31 \<longrightarrow>
        rtt (simulate_network_congestion u now s)
          = \<lfloor>double_mult (real_of_int (rtt s)) (double_add 1 (network_utilization s))\<rfloor>)
   \<and> ((u < packet_loss_rate s \<longleftrightarrow> u' < packet_loss_rate s) \<longrightarrow>
        simulate_network_congestion u now s = simulate_network_congestion u' now s)"
proof -
  let ?p = "double_mult (real_of_int (rtt s)) (double_add 1 (network_utilization s))"
  have eq: "simulate_network_congestion u now s =
     (if u < packet_loss_rate s then timeout_event now s else s)
       \<lparr>rtt := (if network_utilization s > 7 / 10 then int_of_double ?p else rtt s)\<rparr>" for u
    by (simp add: simulate_network_congestion_def Let_def timeout_event_frame)
  have fl: "rtt (simulate_network_congestion u now s) = \<lfloor>?p\<rfloor>"
    if "network_utilization s > 7 / 10" and "0 \<le> ?p" and "?p < 2 ^ 31"
  proof -
    from that(2) have t: "trunc ?p = \<lfloor>?p\<rfloor>" by (rule trunc_nonneg)
    have "0 \<le> \<lfloor>?p\<rfloor>" using that(2) by simp
    moreover have "\<lfloor>?p\<rfloor> < 2 ^ 31" using that(3) by (simp add: floor_less_iff)
    ultimately have "int_of_double ?p = \<lfloor>?p\<rfloor>"
      by (simp add: int_of_double_def t INT_MIN_def INT_MAX_def)
    with that(1) show ?thesis by (simp add: eq)
  qed
  have same: "simulate_network_congestion u now s = simulate_network_congestion u' now s"
    if "u < packet_loss_rate s \<longleftrightarrow> u' < packet_loss_rate s"
    using that by (simp add: eq)
  from eq fl same show ?thesis by blast
qed

text \<open>
  The theorem at a new session with loss rate 0.3 and utilization 0.82: the round-trip
  time becomes 181.
\<close>

theorem simulate_network_congestion_effect_witness:
  "network_utilization (set_network_conditions (3 / 10) (82 / 100) 0 (TCPTahoe TAHOE)) > 7 / 10
   \<and> 0 \<le> double_mult
        (real_of_int (rtt (set_network_conditions (3 / 10) (82 / 100) 0 (TCPTahoe TAHOE))))
        (double_add 1
          (network_utilization (set_network_conditions (3 / 10) (82 / 100) 0 (TCPTahoe TAHOE))))
   \<and> double_mult
        (real_of_int (rtt (set_network_conditions (3 / 10) (82 / 100) 0 (TCPTahoe TAHOE))))
        (double_add 1
          (network_utilization (set_network_conditions (3 / 10) (82 / 100) 0 (TCPTahoe TAHOE))))
       < 2 ^ 31
   \<and> ((1 / 10 < packet_loss_rate (set_network_conditions (3 / 10) (82 / 100) 0 (TCPTahoe TAHOE)))
        \<longleftrightarrow> (2 / 10
          < packet_loss_rate (set_network_conditions (3 / 10) (82 / 100) 0 (TCPTahoe TAHOE))))
   \<and> rtt (simulate_network_congestion (1 / 10) 0
        (set_network_conditions (3 / 10) (82 / 100) 0 (TCPTahoe TAHOE))) = 181
   \<and> simulate_network_congestion (1 / 10) 0
        (set_network_conditions (3 / 10) (82 / 100) 0 (TCPTahoe TAHOE))
      = simulate_network_congestion (2 / 10) 0
        (set_network_conditions (3 / 10) (82 / 100) 0 (TCPTahoe TAHOE))"
proof -
  let ?s = "set_network_conditions (3 / 10) (82 / 100) 0 (TCPTahoe TAHOE)"
  let ?p = "double_mult (real_of_int (rtt ?s)) (double_add 1 (network_utilization ?s))"
  have p: "?p = 6403555720167423 / 35184372088832"
    by (simp add: set_network_conditions_def TCPTahoe_def double_inflation)
  have pre: "network_utilization ?s > 7 / 10 \<and> 0 \<le> ?p \<and> ?p < 2 ^ 31"
    unfolding p by (simp add: set_network_conditions_def TCPTahoe_def)
  have side: "(1 / 10 < packet_loss_rate ?s) \<longleftrightarrow> (2 / 10 < packet_loss_rate ?s)"
    by (simp add: set_network_conditions_def TCPTahoe_def)
  have val: "\<lfloor>?p\<rfloor> = 181"
    unfolding p by simp
  note e = simulate_network_congestion_effect [of "1 / 10" 0 ?s "2 / 10"]
  from e pre have "rtt (simulate_network_congestion (1 / 10) 0 ?s) = \<lfloor>?p\<rfloor>"
    by blast
  then have r: "rtt (simulate_network_congestion (1 / 10) 0 ?s) = 181"
    by (simp only: val)
  from e side have q: "simulate_network_congestion (1 / 10) 0 ?s
      = simulate_network_congestion (2 / 10) 0 ?s"
    by blast
  from pre side r q show ?thesis by blast
qed

section \<open>The histories\<close>

lemma recorded_TCPTahoe: "recorded (TCPTahoe a)"
  by (simp add: recorded_def TCPTahoe_def)

lemma recorded_send_packet:
  assumes "recorded s"
  shows "recorded (send_packet now s)"
proof -
  from assms have "current_state s \<noteq> TIMEOUT" by (simp add: recorded_def)
  from send_packet_state_history [OF this, of now]
  obtain l where "state_history (send_packet now s) = state_history s @ [l]"
    and "current_state (send_packet now s) \<noteq> TIMEOUT"
    by blast
  with assms show ?thesis
    by (simp add: recorded_def send_packet_histories)
qed

lemma recorded_timeout_event:
  assumes "recorded s"
  shows "recorded (timeout_event now s)"
proof -
  obtain l where "state_history (timeout_event now s) = state_history s @ [l]"
    using timeout_event_state_history by blast
  with assms timeout_event_current_state [of s now] show ?thesis
    by (simp add: recorded_def timeout_event_frame)
qed

lemma recorded_duplicate_ack:
  assumes "recorded s"
  shows "recorded (duplicate_ack now s)"
proof (cases "duplicate_ack_count s = 2")
  case True
  obtain l where "state_history (duplicate_ack now s) = state_history s @ [l]"
    using duplicate_ack_third(3) [OF True] by blast
  with assms duplicate_ack_third(7) [OF True, of now] show ?thesis
    by (simp add: recorded_def duplicate_ack_third [OF True])
next
  case False
  with assms have "0 \<le> duplicate_ack_count s" and "duplicate_ack_count s < 2"
    by (simp_all add: recorded_def)
  from duplicate_ack_below [OF this] assms this show ?thesis
    by (simp add: recorded_def)
qed

lemma recorded_simulate_network_congestion:
  assumes "recorded s"
  shows "recorded (simulate_network_congestion u now s)"
  using assms recorded_timeout_event [OF assms, of now]
  by (simp add: simulate_network_congestion_def Let_def recorded_def)

lemma recorded_apply_operation: "recorded s \<Longrightarrow> recorded (apply_operation x s)"
proof (cases x)
  case (SendPacket now)
  then show "recorded s \<Longrightarrow> ?thesis" by (simp add: recorded_send_packet)
next
  case (TimeoutEvent now)
  then show "recorded s \<Longrightarrow> ?thesis" by (simp add: recorded_timeout_event)
next
  case (DuplicateAck now)
  then show "recorded s \<Longrightarrow> ?thesis" by (simp add: recorded_duplicate_ack)
next
  case (ReceiveAck k)
  then show "recorded s \<Longrightarrow> ?thesis" by (simp add: recorded_def receive_ack_def Let_def)
next
  case (SetNetworkConditions l u d)
  then show "recorded s \<Longrightarrow> ?thesis" by (simp add: recorded_def set_network_conditions_def)
next
  case (SetAlgorithm a)
  then show "recorded s \<Longrightarrow> ?thesis" by (simp add: recorded_def set_algorithm_def reset_def)
next
  case Reset
  then show "recorded s \<Longrightarrow> ?thesis" by (simp add: recorded_def reset_def)
next
  case (SimulateNetworkCongestion u now)
  then show "recorded s \<Longrightarrow> ?thesis" by (simp add: recorded_simulate_network_congestion)
next
  case AdaptiveCongestionResponse
  then show "recorded s \<Longrightarrow> ?thesis"
    by (simp add: recorded_def adaptive_congestion_response_frame)
qed

lemma recorded_run: "recorded s \<Longrightarrow> recorded (run xs s)"
  by (induction xs arbitrary: s) (simp_all add: recorded_apply_operation)

text \<open>No call but a reset takes an entry away or changes one.\<close>

lemma duplicate_ack_prefix:
  "prefix (cwnd_history s) (cwnd_history (duplicate_ack now s))"
  "prefix (ssthresh_history s) (ssthresh_history (duplicate_ack now s))"
  "prefix (state_history s) (state_history (duplicate_ack now s))"
  "prefix (throughput_history s) (throughput_history (duplicate_ack now s))"
  "prefix (rtt_history s) (rtt_history (duplicate_ack now s))"
  by (cases "algorithm s"; simp add: duplicate_ack_def Let_def)+

lemma timeout_event_prefix:
  "prefix (cwnd_history s) (cwnd_history (timeout_event now s))"
  "prefix (ssthresh_history s) (ssthresh_history (timeout_event now s))"
  "prefix (state_history s) (state_history (timeout_event now s))"
  "prefix (throughput_history s) (throughput_history (timeout_event now s))"
  "prefix (rtt_history s) (rtt_history (timeout_event now s))"
  by (cases "algorithm s"; simp add: timeout_event_def Let_def)+

lemma apply_operation_prefix:
  assumes "x \<noteq> Reset" and "\<forall>a. x \<noteq> SetAlgorithm a"
  shows "prefix (cwnd_history s) (cwnd_history (apply_operation x s))"
    and "prefix (ssthresh_history s) (ssthresh_history (apply_operation x s))"
    and "prefix (state_history s) (state_history (apply_operation x s))"
    and "prefix (throughput_history s) (throughput_history (apply_operation x s))"
    and "prefix (rtt_history s) (rtt_history (apply_operation x s))"
  using assms
  by (cases x;
      simp add: send_packet_histories send_packet_state_history_prefix timeout_event_prefix
        duplicate_ack_prefix receive_ack_def set_network_conditions_def Let_def
        simulate_network_congestion_def adaptive_congestion_response_frame)+

text \<open>
  Claim C5, as stated: every send, every timeout and every third duplicate ack appends
  one entry to each of the five histories, the five have one length, and no operation
  removes an entry. A timeout on a new session leaves one entry in the window history
  and none in the throughput and round-trip histories; and \<^verbatim>\<open>reset\<close> after a send
  empties the window history.
\<close>

theorem histories_counterexample:
  "length (cwnd_history (run [TimeoutEvent 0] (TCPTahoe TAHOE))) = 1
   \<and> length (throughput_history (run [TimeoutEvent 0] (TCPTahoe TAHOE))) = 0
   \<and> length (rtt_history (run [TimeoutEvent 0] (TCPTahoe TAHOE))) = 0
   \<and> cwnd_history (run [SendPacket 0] (TCPTahoe TAHOE)) = [1]
   \<and> cwnd_history (run [SendPacket 0, Reset] (TCPTahoe TAHOE)) = []"
  by (simp add: timeout_event_frame send_packet_histories reset_def TCPTahoe_def)

text \<open>
  Claim C5, amended. In every state that a session reaches: the window, threshold and
  label histories have one length, and the throughput and round-trip histories have one
  length; a send appends one entry to each of the five (the window, the threshold, a
  label, the throughput and the round-trip time before the send); a timeout, and the
  duplicate ack that finds the counter at 2, append one entry to each of the window,
  threshold and label histories; a duplicate ack that finds the counter below 2 leaves the
  five as they are; every call other than \<^verbatim>\<open>reset\<close> and \<^verbatim>\<open>set_algorithm\<close> leaves each
  history a prefix of what it becomes; \<^verbatim>\<open>reset\<close> (and so \<^verbatim>\<open>set_algorithm\<close>, see C6)
  empties the five.
\<close>

theorem histories_append_only:
  assumes "s = run xs (TCPTahoe a)"
  shows "length (cwnd_history s) = length (ssthresh_history s)
    \<and> length (ssthresh_history s) = length (state_history s)
    \<and> length (throughput_history s) = length (rtt_history s)
    \<and> cwnd_history (send_packet now s) = cwnd_history s @ [cwnd s]
    \<and> ssthresh_history (send_packet now s) = ssthresh_history s @ [ssthresh s]
    \<and> (\<exists>l. state_history (send_packet now s) = state_history s @ [l])
    \<and> throughput_history (send_packet now s) = throughput_history s @ [calculate_throughput s]
    \<and> rtt_history (send_packet now s) = rtt_history s @ [rtt s]
    \<and> cwnd_history (timeout_event now s) = cwnd_history s @ [cwnd s]
    \<and> ssthresh_history (timeout_event now s) = ssthresh_history s @ [ssthresh s]
    \<and> (\<exists>l. state_history (timeout_event now s) = state_history s @ [l])
    \<and> (duplicate_ack_count s = 2 \<longrightarrow>
          cwnd_history (duplicate_ack now s) = cwnd_history s @ [cwnd s]
          \<and> ssthresh_history (duplicate_ack now s) = ssthresh_history s @ [ssthresh s]
          \<and> (\<exists>l. state_history (duplicate_ack now s) = state_history s @ [l]))
    \<and> (duplicate_ack_count s \<noteq> 2 \<longrightarrow>
          cwnd_history (duplicate_ack now s) = cwnd_history s
          \<and> ssthresh_history (duplicate_ack now s) = ssthresh_history s
          \<and> state_history (duplicate_ack now s) = state_history s
          \<and> throughput_history (duplicate_ack now s) = throughput_history s
          \<and> rtt_history (duplicate_ack now s) = rtt_history s)
    \<and> (x \<noteq> Reset \<and> (\<forall>b. x \<noteq> SetAlgorithm b) \<longrightarrow>
          prefix (cwnd_history s) (cwnd_history (apply_operation x s))
          \<and> prefix (ssthresh_history s) (ssthresh_history (apply_operation x s))
          \<and> prefix (state_history s) (state_history (apply_operation x s))
          \<and> prefix (throughput_history s) (throughput_history (apply_operation x s))
          \<and> prefix (rtt_history s) (rtt_history (apply_operation x s)))
    \<and> cwnd_history (reset s) = [] \<and> ssthresh_history (reset s) = []
    \<and> state_history (reset s) = [] \<and> throughput_history (reset s) = []
    \<and> rtt_history (reset s) = []"
proof -
  have inv: "recorded s"
    unfolding assms by (intro recorded_run recorded_TCPTahoe)
  then have lengths: "length (cwnd_history s) = length (ssthresh_history s)
      \<and> length (ssthresh_history s) = length (state_history s)
      \<and> length (throughput_history s) = length (rtt_history s)"
    by (simp add: recorded_def)
  from inv have phase: "current_state s \<noteq> TIMEOUT" by (simp add: recorded_def)
  have send: "cwnd_history (send_packet now s) = cwnd_history s @ [cwnd s]
      \<and> ssthresh_history (send_packet now s) = ssthresh_history s @ [ssthresh s]
      \<and> (\<exists>l. state_history (send_packet now s) = state_history s @ [l])
      \<and> throughput_history (send_packet now s) = throughput_history s @ [calculate_throughput s]
      \<and> rtt_history (send_packet now s) = rtt_history s @ [rtt s]"
    using send_packet_state_history(1) [OF phase, of now] by (simp add: send_packet_histories)
  have timeout: "cwnd_history (timeout_event now s) = cwnd_history s @ [cwnd s]
      \<and> ssthresh_history (timeout_event now s) = ssthresh_history s @ [ssthresh s]
      \<and> (\<exists>l. state_history (timeout_event now s) = state_history s @ [l])"
    using timeout_event_state_history [of now s] by (simp add: timeout_event_frame)
  have third: "cwnd_history (duplicate_ack now s) = cwnd_history s @ [cwnd s]
      \<and> ssthresh_history (duplicate_ack now s) = ssthresh_history s @ [ssthresh s]
      \<and> (\<exists>l. state_history (duplicate_ack now s) = state_history s @ [l])"
    if "duplicate_ack_count s = 2"
    using duplicate_ack_third(3) [OF that, of now] by (simp add: duplicate_ack_third [OF that])
  have below: "cwnd_history (duplicate_ack now s) = cwnd_history s
      \<and> ssthresh_history (duplicate_ack now s) = ssthresh_history s
      \<and> state_history (duplicate_ack now s) = state_history s
      \<and> throughput_history (duplicate_ack now s) = throughput_history s
      \<and> rtt_history (duplicate_ack now s) = rtt_history s"
    if "duplicate_ack_count s \<noteq> 2"
  proof -
    from inv that have "0 \<le> duplicate_ack_count s" and "duplicate_ack_count s < 2"
      by (simp_all add: recorded_def)
    from duplicate_ack_below [OF this, of now] show ?thesis by simp
  qed
  have kept: "prefix (cwnd_history s) (cwnd_history (apply_operation x s))
      \<and> prefix (ssthresh_history s) (ssthresh_history (apply_operation x s))
      \<and> prefix (state_history s) (state_history (apply_operation x s))
      \<and> prefix (throughput_history s) (throughput_history (apply_operation x s))
      \<and> prefix (rtt_history s) (rtt_history (apply_operation x s))"
    if "x \<noteq> Reset \<and> (\<forall>b. x \<noteq> SetAlgorithm b)"
    using that by (simp add: apply_operation_prefix)
  have cleared: "cwnd_history (reset s) = [] \<and> ssthresh_history (reset s) = []
      \<and> state_history (reset s) = [] \<and> throughput_history (reset s) = []
      \<and> rtt_history (reset s) = []"
    by (simp add: reset_def)
  from lengths send timeout third below kept cleared show ?thesis
    by blast
qed

text \<open>
  The theorem at two states of a new TAHOE session: after a send and two duplicate acks
  (the counter is 2), and after one send (the counter is 0).
\<close>

theorem histories_append_only_witness:
  "duplicate_ack_count (run [SendPacket 0, DuplicateAck 1, DuplicateAck 2] (TCPTahoe TAHOE)) = 2
   \<and> cwnd_history (duplicate_ack 3
        (run [SendPacket 0, DuplicateAck 1, DuplicateAck 2] (TCPTahoe TAHOE))) = [1, 2]
   \<and> duplicate_ack_count (run [SendPacket 0] (TCPTahoe TAHOE)) \<noteq> 2
   \<and> cwnd_history (duplicate_ack 1 (run [SendPacket 0] (TCPTahoe TAHOE))) = [1]
   \<and> TimeoutEvent 3 \<noteq> Reset \<and> (\<forall>b. TimeoutEvent 3 \<noteq> SetAlgorithm b)
   \<and> prefix (cwnd_history (run [SendPacket 0] (TCPTahoe TAHOE)))
        (cwnd_history (apply_operation (TimeoutEvent 3) (run [SendPacket 0] (TCPTahoe TAHOE))))
   \<and> length (state_history (run [SendPacket 0, DuplicateAck 1, DuplicateAck 2] (TCPTahoe TAHOE)))
        = length (cwnd_history (run [SendPacket 0, DuplicateAck 1, DuplicateAck 2] (TCPTahoe TAHOE)))"
proof -
  let ?A = "run [SendPacket 0, DuplicateAck 1, DuplicateAck 2] (TCPTahoe TAHOE)"
  let ?B = "run [SendPacket 0] (TCPTahoe TAHOE)"
  have A: "duplicate_ack_count ?A = 2" "cwnd_history ?A = [1]" "cwnd ?A = 2"
    by (simp_all add: duplicate_ack_below send_packet_histories send_packet_slow_start
        TCPTahoe_def)
  have B: "duplicate_ack_count ?B \<noteq> 2" "cwnd_history ?B = [1]"
    by (simp_all add: send_packet_histories TCPTahoe_def)
  have x: "TimeoutEvent 3 \<noteq> Reset \<and> (\<forall>b. TimeoutEvent 3 \<noteq> SetAlgorithm b)"
    by simp
  note a = histories_append_only [OF refl, of "[SendPacket 0, DuplicateAck 1, DuplicateAck 2]"
      TAHOE 3 "TimeoutEvent 3"]
  note b = histories_append_only [OF refl, of "[SendPacket 0]" TAHOE 1 "TimeoutEvent 3"]
  from a A(1) have "cwnd_history (duplicate_ack 3 ?A) = cwnd_history ?A @ [cwnd ?A]"
    by blast
  then have 1: "cwnd_history (duplicate_ack 3 ?A) = [1, 2]"
    by (simp only: A append.simps)
  from b B(1) have "cwnd_history (duplicate_ack 1 ?B) = cwnd_history ?B"
    by blast
  then have 2: "cwnd_history (duplicate_ack 1 ?B) = [1]"
    by (simp only: B)
  from b x have 3: "prefix (cwnd_history ?B) (cwnd_history (apply_operation (TimeoutEvent 3) ?B))"
    by blast
  from a have 4: "length (state_history ?A) = length (cwnd_history ?A)"
    by simp
  from A(1) 1 B(1) 2 x 3 4 show ?thesis
    by blast
qed

section \<open>The floor of the window and of the threshold\<close>

subsection \<open>Sends in a row\<close>

lemma run_append: "run (xs @ ys) s = run ys (run xs s)"
  by (induction xs arbitrary: s) simp_all

lemma run_replicate: "run (replicate n x) s = (apply_operation x ^^ n) s"
  by (induction n arbitrary: s) (simp_all add: funpow_swap1)

lemma slow_start_sends:
  assumes "current_state s = SLOW_START" and "algorithm s \<noteq> BBR"
    and "1 \<le> cwnd s" and "cwnd s * 2 ^ n < ssthresh s" and "ssthresh s \<le> 2 ^ 30"
  shows "cwnd ((send_packet now ^^ n) s) = cwnd s * 2 ^ n
    \<and> ssthresh ((send_packet now ^^ n) s) = ssthresh s
    \<and> current_state ((send_packet now ^^ n) s) = SLOW_START
    \<and> algorithm ((send_packet now ^^ n) s) = algorithm s"
  using assms(4)
proof (induction n)
  case 0
  from assms(1) show ?case by simp
next
  case (Suc n)
  have "cwnd s * 2 ^ n \<le> cwnd s * 2 ^ Suc n"
    using assms(3) by (simp add: mult_left_mono)
  with Suc.prems have lt: "cwnd s * 2 ^ n < ssthresh s" by simp
  let ?t = "(send_packet now ^^ n) s"
  from Suc.IH [OF lt] have t: "cwnd ?t = cwnd s * 2 ^ n" "ssthresh ?t = ssthresh s"
    "current_state ?t = SLOW_START" "algorithm ?t = algorithm s"
    by simp_all
  have "0 \<le> cwnd s * 2 ^ n"
    using assms(3) by simp
  then have lo: "- (2 ^ 30) \<le> cwnd ?t"
    by (simp add: t)
  have hi: "cwnd ?t < 2 ^ 30"
    using lt assms(5) by (simp add: t)
  have ne: "algorithm ?t \<noteq> BBR"
    using assms(2) by (simp add: t)
  have "\<not> ssthresh ?t \<le> 2 * cwnd ?t"
    using Suc.prems by (simp add: t mult.assoc mult.left_commute)
  with send_packet_slow_start [OF t(3) ne lo hi, of now] show ?case
    by (simp add: t mult.assoc mult.left_commute)
qed

lemma tahoe_avoidance_sends:
  assumes "algorithm s = TAHOE" and "current_state s = CONGESTION_AVOIDANCE"
    and "0 \<le> cwnd s" and "cwnd s + int n \<le> INT_MAX"
  shows "cwnd ((send_packet now ^^ n) s) = cwnd s + int n
    \<and> current_state ((send_packet now ^^ n) s) = CONGESTION_AVOIDANCE
    \<and> algorithm ((send_packet now ^^ n) s) = TAHOE"
  using assms(4)
proof (induction n)
  case 0
  from assms(1,2) show ?case by simp
next
  case (Suc n)
  then have le: "cwnd s + int n \<le> INT_MAX" by simp
  let ?t = "(send_packet now ^^ n) s"
  from Suc.IH [OF le] have t: "cwnd ?t = cwnd s + int n"
    "current_state ?t = CONGESTION_AVOIDANCE" "algorithm ?t = TAHOE"
    by simp_all
  have ne: "current_state ?t \<noteq> SLOW_START" "algorithm ?t \<noteq> BBR"
    by (simp_all add: t)
  have "int32 (cwnd ?t + 1) = cwnd s + int (Suc n)"
    using assms(3) Suc.prems by (simp add: t int32_small INT_MAX_def)
  with send_packet_tahoe_avoidance [OF t(3) ne(1), of now]
    send_packet_avoidance_frame [OF ne, of now]
  show ?case by (simp add: t)
qed

subsection \<open>Short of an overflow the floor holds\<close>

text \<open>
  Every reduction clamps at 1 (\<^verbatim>\<open>std::max(..., 1)\<close>), and every growth step starts from
  a window of at least 1. So each call keeps \<open>cwnd \<ge> 1\<close> and \<open>ssthresh \<ge> 1\<close> as long as
  the window it starts from is below \<open>2 ^ 30\<close>, where doubling and adding 1 stay inside
  the \<^verbatim>\<open>int\<close> range; and so does every sequence of calls on a new session along which
  the window stays below \<open>2 ^ 30\<close>.
\<close>

lemma int_of_double_floor:
  assumes "0 \<le> x" and "x < 2 ^ 31"
  shows "int_of_double x = \<lfloor>x\<rfloor>"
proof -
  have "0 \<le> \<lfloor>x\<rfloor>" using assms(1) by simp
  moreover have "\<lfloor>x\<rfloor> < 2 ^ 31" using assms(2) by (simp add: floor_less_iff)
  ultimately show ?thesis
    using assms(1) by (simp add: int_of_double_def trunc_nonneg INT_MIN_def INT_MAX_def)
qed

lemma int_of_double_ge_one:
  assumes "1 \<le> x" and "x < 2 ^ 31"
  shows "1 \<le> int_of_double x"
proof -
  have "int_of_double x = \<lfloor>x\<rfloor>"
    using assms by (intro int_of_double_floor) simp_all
  moreover have "1 \<le> \<lfloor>x\<rfloor>"
    using assms(1) by (simp add: le_floor_iff)
  ultimately show ?thesis by simp
qed

lemma add_reciprocal_ge_one:
  assumes "1 \<le> c" and "c \<le> INT_MAX"
  shows "1 \<le> add_reciprocal c"
proof (cases "c = 1")
  case True
  then show ?thesis by (simp add: add_reciprocal_one)
next
  case False
  with assms have "2 \<le> c" by simp
  from add_reciprocal_idle [OF this assms(2)] assms(1) show ?thesis by simp
qed

lemma send_packet_bbr:
  assumes "algorithm s = BBR" and "tuned s"
  shows "cwnd (send_packet now s) =
     (if real_of_int (cwnd s) < 250
      then int_of_double (min 250 (real_of_int (cwnd s) * (5 / 4)))
      else if real_of_int (cwnd s) > 625 / 2
      then int_of_double (max 250 (real_of_int (cwnd s) * (9 / 10)))
      else cwnd s)"
proof -
  from assms(2) have p: "bbr_max_bandwidth s = 10" "bbr_min_rtt s = 100"
    by (simp_all add: tuned_def)
  from assms(1) show ?thesis
    by (simp add: send_packet_def Let_def adaptive_congestion_response_frame
        bbr_congestion_control_def p)
qed

lemma window_floor_send_packet:
  assumes "tuned s" and "1 \<le> cwnd s" and "cwnd s < 2 ^ 30" and "1 \<le> ssthresh s"
  shows "1 \<le> cwnd (send_packet now s) \<and> 1 \<le> ssthresh (send_packet now s)"
proof -
  have c: "real_of_int (cwnd s) < 2 ^ 30" "1 \<le> real_of_int (cwnd s)"
    using assms(2,3) by simp_all
  have thr: "ssthresh (send_packet now s) = ssthresh s"
    by (cases "algorithm s";
        simp add: send_packet_def Let_def adaptive_congestion_response_frame growth_defs)
  have "1 \<le> cwnd (send_packet now s)"
  proof (cases "algorithm s")
    case TAHOE
    with assms(2,3) show ?thesis
      by (simp add: send_packet_def Let_def adaptive_congestion_response_frame growth_defs
          int32_small)
  next
    case RENO
    have "1 \<le> add_reciprocal (cwnd s)"
      using assms(2,3) by (intro add_reciprocal_ge_one) (simp_all add: INT_MAX_def)
    with RENO assms(2,3) show ?thesis
      by (simp add: send_packet_def Let_def adaptive_congestion_response_frame growth_defs
          int32_small)
  next
    case CUBIC
    show ?thesis
    proof (cases "current_state s = SLOW_START")
      case True
      with CUBIC assms(2,3) show ?thesis
        by (simp add: send_packet_slow_start)
    next
      case False
      let ?m = "min (cubic_target_cwnd now s) (real_of_int (cwnd s) + 1)"
      have above: "real_of_int (cwnd s) < cubic_target_cwnd now s"
        using assms(1,2) by (rule cubic_target_cwnd_exceeds)
      then have "1 \<le> ?m" using c by simp
      moreover have "?m < 2 ^ 31" using c by simp
      ultimately have "1 \<le> int_of_double ?m" by (rule int_of_double_ge_one)
      with send_packet_cubic_avoidance [OF CUBIC False above] show ?thesis by simp
    qed
  next
    case BBR
    have up: "1 \<le> int_of_double (min 250 (real_of_int (cwnd s) * (5 / 4)))"
      using c by (intro int_of_double_ge_one) simp_all
    have down: "1 \<le> int_of_double (max 250 (real_of_int (cwnd s) * (9 / 10)))"
      using c by (intro int_of_double_ge_one) simp_all
    note e = send_packet_bbr [OF BBR assms(1), of now]
    show ?thesis
    proof (cases "real_of_int (cwnd s) < 250")
      case True
      with e have "cwnd (send_packet now s)
          = int_of_double (min 250 (real_of_int (cwnd s) * (5 / 4)))"
        by (simp only: if_True)
      with up show ?thesis by (simp only:)
    next
      case False
      show ?thesis
      proof (cases "real_of_int (cwnd s) > 625 / 2")
        case True
        with e \<open>\<not> real_of_int (cwnd s) < 250\<close> have "cwnd (send_packet now s)
            = int_of_double (max 250 (real_of_int (cwnd s) * (9 / 10)))"
          by (simp only: if_True if_False)
        with down show ?thesis by (simp only:)
      next
        case False
        with e \<open>\<not> real_of_int (cwnd s) < 250\<close> have "cwnd (send_packet now s) = cwnd s"
          by (simp only: if_False)
        with assms(2) show ?thesis by (simp only:)
      qed
    qed
  qed
  with thr assms(4) show ?thesis by simp
qed

lemma window_floor_timeout_event:
  assumes "1 \<le> cwnd s" and "cwnd s < 2 ^ 30" and "1 \<le> ssthresh s"
  shows "1 \<le> cwnd (timeout_event now s) \<and> 1 \<le> ssthresh (timeout_event now s)"
proof (cases "algorithm s")
  case BBR
  have "1 \<le> int_of_double (max (real_of_int (cwnd s) * (8 / 10)) 1)"
    using assms(1,2) by (intro int_of_double_ge_one) simp_all
  with BBR assms(3) show ?thesis
    by (simp add: timeout_event_def Let_def)
qed (simp_all add: timeout_event_def Let_def)

lemma window_floor_duplicate_ack:
  assumes "1 \<le> cwnd s" and "cwnd s < 2 ^ 30" and "1 \<le> ssthresh s"
  shows "1 \<le> cwnd (duplicate_ack now s) \<and> 1 \<le> ssthresh (duplicate_ack now s)"
proof (cases "algorithm s")
  case RENO
  have "c_div (cwnd s) 2 = cwnd s div 2"
    using assms(1) by (simp add: c_div_def)
  then have "0 \<le> c_div (cwnd s) 2" and "c_div (cwnd s) 2 < 2 ^ 30"
    using assms(1,2) by simp_all
  then have "int32 (max (c_div (cwnd s) 2) 1 + 3) = max (c_div (cwnd s) 2) 1 + 3"
    by (intro int32_small) simp_all
  with RENO assms show ?thesis
    by (simp add: duplicate_ack_def Let_def)
qed (use assms in \<open>simp_all add: duplicate_ack_def Let_def\<close>)

lemma window_floor_apply_operation:
  assumes "tuned s" and "1 \<le> cwnd s" and "cwnd s < 2 ^ 30" and "1 \<le> ssthresh s"
  shows "1 \<le> cwnd (apply_operation x s) \<and> 1 \<le> ssthresh (apply_operation x s)"
proof (cases x)
  case (SendPacket now)
  with window_floor_send_packet [OF assms] show ?thesis by simp
next
  case (TimeoutEvent now)
  with window_floor_timeout_event [OF assms(2-4)] show ?thesis by simp
next
  case (DuplicateAck now)
  with window_floor_duplicate_ack [OF assms(2-4)] show ?thesis by simp
next
  case (ReceiveAck k)
  with assms show ?thesis by (simp add: receive_ack_def Let_def)
next
  case (SetNetworkConditions l u d)
  with assms show ?thesis by (simp add: set_network_conditions_def)
next
  case (SetAlgorithm a)
  then show ?thesis by (simp add: set_algorithm_def reset_def)
next
  case Reset
  then show ?thesis by (simp add: reset_def)
next
  case (SimulateNetworkCongestion u now)
  with window_floor_timeout_event [OF assms(2-4), of now] assms show ?thesis
    by (simp add: simulate_network_congestion_def Let_def)
next
  case AdaptiveCongestionResponse
  with assms show ?thesis by (simp add: adaptive_congestion_response_frame)
qed

lemma window_floor_run:
  assumes "\<forall>k < length xs. cwnd (run (take k xs) (TCPTahoe a)) < 2 ^ 30"
  shows "1 \<le> cwnd (run xs (TCPTahoe a)) \<and> 1 \<le> ssthresh (run xs (TCPTahoe a))"
  using assms
proof (induction xs rule: rev_induct)
  case Nil
  show ?case by (simp add: TCPTahoe_def)
next
  case (snoc x xs)
  let ?s = "run xs (TCPTahoe a)"
  have "\<forall>k < length xs. cwnd (run (take k xs) (TCPTahoe a)) < 2 ^ 30"
  proof (intro allI impI)
    fix k assume "k < length xs"
    with snoc.prems [rule_format, of k] show "cwnd (run (take k xs) (TCPTahoe a)) < 2 ^ 30"
      by simp
  qed
  from snoc.IH [OF this] have floor: "1 \<le> cwnd ?s" "1 \<le> ssthresh ?s"
    by simp_all
  from snoc.prems [rule_format, of "length xs"] have below: "cwnd ?s < 2 ^ 30"
    by simp
  have "tuned ?s"
    by (intro tuned_run tuned_TCPTahoe)
  from window_floor_apply_operation [OF this floor(1) below floor(2), of x] show ?case
    by (simp add: run_append)
qed

text \<open>
  Claim C1. For every algorithm and every finite sequence of the public operations on
  a new session, \<open>cwnd \<ge> 1\<close> and \<open>ssthresh \<ge> 1\<close> after every operation. No growth step
  has an upper bound: under TAHOE sixteen sends double the window to 65536 and end slow
  start, and every later send adds 1. After 2147418127 sends the window is
  \<^verbatim>\<open>INT_MAX\<close>; the next \<^verbatim>\<open>cwnd += 1\<close> overflows the \<^verbatim>\<open>int\<close> and leaves a negative
  window.
\<close>

theorem window_floor_overflow:
  "cwnd (run (replicate 2147418127 (SendPacket 0)) (TCPTahoe TAHOE)) = 2147483647
   \<and> cwnd (run (replicate 2147418128 (SendPacket 0)) (TCPTahoe TAHOE)) = - 2147483648
   \<and> \<not> 1 \<le> cwnd (run (replicate 2147418128 (SendPacket 0)) (TCPTahoe TAHOE))"
proof -
  let ?f = "send_packet 0"
  let ?a = "(?f ^^ 15) (TCPTahoe TAHOE)"
  let ?b = "?f ?a"
  let ?c = "(?f ^^ 2147418111) ?b"
  have f: "apply_operation (SendPacket 0) = ?f"
    by (rule ext) simp
  have a: "cwnd ?a = 32768" "ssthresh ?a = 65535" "current_state ?a = SLOW_START"
    "algorithm ?a = TAHOE"
    using slow_start_sends [of "TCPTahoe TAHOE" 15 0] by (simp_all add: TCPTahoe_def)
  have b: "cwnd ?b = 65536" "current_state ?b = CONGESTION_AVOIDANCE" "algorithm ?b = TAHOE"
    using a by (simp_all add: send_packet_slow_start)
  have c: "cwnd ?c = 2147483647" "current_state ?c = CONGESTION_AVOIDANCE" "algorithm ?c = TAHOE"
    using tahoe_avoidance_sends [of ?b 2147418111 0] b by (simp_all add: INT_MAX_def)
  have d: "cwnd (?f ?c) = - 2147483648"
    using c by (simp add: send_packet_tahoe_avoidance int32_def)
  have one: "?f ^^ 1 = ?f"
    by simp
  have "(2147418127::nat) = 2147418111 + (1 + 15)"
    by simp
  then have "(?f ^^ 2147418127) (TCPTahoe TAHOE) = ?c"
    by (simp only: funpow_add o_apply one)
  moreover have "(2147418128::nat) = 1 + (2147418111 + (1 + 15))"
    by simp
  then have "(?f ^^ 2147418128) (TCPTahoe TAHOE) = ?f ?c"
    by (simp only: funpow_add o_apply one)
  ultimately show ?thesis
    by (simp only: run_replicate f c d) simp
qed

end
